theory Spec2Isabelle
  imports Complex_Main
begin

section \<open>Data model (types.ts)\<close>

text \<open>
  The interfaces of \<^verbatim>\<open>types.ts\<close> as records. Fields of type \<^verbatim>\<open>number\<close> that the
  analyzer fills with array lengths and line counts are natural numbers. The fields
  \<^verbatim>\<open>languages\<close> and \<^verbatim>\<open>fileList\<close> of \<^verbatim>\<open>ProjectStats\<close> are read by no
  function modelled here and are left out.
\<close>

record ProjectStats =
  totalFiles :: nat
  totalLOC :: nat
  totalCodeLines :: nat
  totalCommentLines :: nat
  totalBlankLines :: nat

record Hotspot =
  hfile :: string
  commits :: nat

record Link =
  source :: string
  target :: string

text \<open>A node is \<^verbatim>\<open>{ id: string }\<close>; the list of nodes is the list of their ids.\<close>

record DependencyGraph =
  nodes :: "string list"
  links :: "Link list"

datatype VulnSource = NpmAudit | CodeScan

text \<open>
  \<^verbatim>\<open>severity\<close> is declared as a union of four string literals, but at run time it is
  whatever string the producer stored, so it is a string here.
\<close>

record SecurityVulnerability =
  name :: string
  severity :: string
  description :: string
  vsource :: VulnSource
  vfile :: "string option"
  line :: "nat option"
  category :: "string option"

section \<open>Health score (analyzer/project.ts, calculateHealthScore)\<close>

definition countSeverity :: "string \<Rightarrow> SecurityVulnerability list \<Rightarrow> nat" where
  "countSeverity s security = length (filter (\<lambda>v. severity v = s) security)"

text \<open>Lines 118 to 121: the three counts and the capped penalty.\<close>

definition securityPenalty :: "SecurityVulnerability list \<Rightarrow> real" where
  "securityPenalty security =
     (let criticalCount = countSeverity ''critical'' security;
          highCount = countSeverity ''high'' security;
          mediumCount = countSeverity ''medium'' security
      in min (real criticalCount * 10 + real highCount * 5 + real mediumCount * 2) 30)"

text \<open>Line 107: the hotspots with more than ten commits.\<close>

definition activeHotspots :: "Hotspot list \<Rightarrow> nat" where
  "activeHotspots hotspots = length (filter (\<lambda>h. commits h > 10) hotspots)"

text \<open>Line 111: \<^verbatim>\<open>links.length / (nodes.length || 1)\<close>; the length 0 is falsy.\<close>

definition couplingRatio :: "DependencyGraph \<Rightarrow> real" where
  "couplingRatio dependencies =
     real (length (links dependencies)) /
     real (if length (nodes dependencies) = 0 then 1 else length (nodes dependencies))"

text \<open>
  The score is a JavaScript number; it is a real here. \<^verbatim>\<open>rawScore\<close> is the value of
  the variable \<^verbatim>\<open>score\<close> after line 128: the statements follow the source one by
  one, the variable being rebound by each. Line 130 clamps and floors it. The two
  quotients are quotients of counts; for counts below a thousand million million the comparisons
  \<^verbatim>\<open>couplingRatio > 3\<close> and \<^verbatim>\<open>commentRatio < 0.05\<close> in double precision agree with
  the exact ones made here.
\<close>

definition rawScore ::
  "ProjectStats \<Rightarrow> Hotspot list \<Rightarrow> DependencyGraph \<Rightarrow> nat \<Rightarrow> SecurityVulnerability list \<Rightarrow> real"
where
  "rawScore stats hotspots dependencies unusedDepsCount security =
     (let score = (100 :: real);
          score = (if totalFiles stats > 200 then score - 10 else score);
          score = (if totalLOC stats > 10000 then score - 10 else score);
          score = score - min (real (activeHotspots hotspots) * 3) 15;
          score = (if couplingRatio dependencies > 3 then score - 15 else score);
          score = score - min (real unusedDepsCount * 2) 15;
          score = score - securityPenalty security;
          score = (if totalCodeLines stats > 0
                   then (let commentRatio =
                               real (totalCommentLines stats) / real (totalCodeLines stats)
                         in if commentRatio < 0.05 then score - 5 else score)
                   else score)
      in score)"

definition calculateHealthScore ::
  "ProjectStats \<Rightarrow> Hotspot list \<Rightarrow> DependencyGraph \<Rightarrow> nat \<Rightarrow> SecurityVulnerability list \<Rightarrow> int"
where
  "calculateHealthScore stats hotspots dependencies unusedDepsCount security =
     \<lfloor>max 0 (min 100 (rawScore stats hotspots dependencies unusedDepsCount security))\<rfloor>"

section \<open>Strings and POSIX paths\<close>

text \<open>
  Paths, specifiers and package names are strings, lists of characters in UTF-8; the
  functions applied to them compare whole strings or look for ASCII characters, which
  UTF-8 never uses inside the encoding of another character. The text of a project file
  is a list of UTF-16 code units, as a JavaScript string is: the regular expressions and
  \<^verbatim>\<open>trim\<close> work on code units and count them. The list functions below are the
  JavaScript string methods for either kind.
\<close>

text \<open>A code unit is an integer from 0 to 65535.\<close>

type_synonym codeunit = int

text \<open>An ASCII literal of the source as code units.\<close>

definition units :: "string \<Rightarrow> codeunit list" where
  "units s = map of_char s"

definition startsWith :: "'a list \<Rightarrow> 'a list \<Rightarrow> bool" where
  "startsWith s p = (take (length p) s = p)"

definition endsWith :: "string \<Rightarrow> string \<Rightarrow> bool" where
  "endsWith s p = (length p \<le> length s \<and> drop (length s - length p) s = p)"

text \<open>\<^verbatim>\<open>s.split(sep)\<close> for a one-character separator: at least one piece, also for the empty string.\<close>

fun splitOn :: "'a \<Rightarrow> 'a list \<Rightarrow> 'a list list" where
  "splitOn sep [] = [[]]"
| "splitOn sep (c # cs) =
     (if c = sep then [] # splitOn sep cs
      else (case splitOn sep cs of [] \<Rightarrow> [[c]] | w # ws \<Rightarrow> (c # w) # ws))"

text \<open>\<^verbatim>\<open>parts.join(sep)\<close>.\<close>

fun joinWith :: "string \<Rightarrow> string list \<Rightarrow> string" where
  "joinWith sep [] = []"
| "joinWith sep [p] = p"
| "joinWith sep (p # q # ps) = p @ sep @ joinWith sep (q # ps)"

text \<open>\<^verbatim>\<open>s.replace(/\\/g, '/')\<close>: every backslash becomes a forward slash.\<close>

definition slashes :: "string \<Rightarrow> string" where
  "slashes s = map (\<lambda>c. if c = CHR 0x5C then CHR ''/'' else c) s"

text \<open>
  \<^verbatim>\<open>path.dirname\<close>, \<^verbatim>\<open>path.join\<close> and \<^verbatim>\<open>path.extname\<close> belong to Node's
  \<^verbatim>\<open>node:path\<close>, not to the repository. They are modelled after Node's POSIX
  implementation: \<^verbatim>\<open>normalizeString\<close> walks the segments between slashes, drops empty
  segments and \<^verbatim>\<open>.\<close>, and lets \<^verbatim>\<open>..\<close> remove the segment before it (or, for a
  relative path with nothing left to remove, keeps the \<^verbatim>\<open>..\<close>).
\<close>

definition normalizeStep :: "bool \<Rightarrow> string list \<Rightarrow> string \<Rightarrow> string list" where
  "normalizeStep allowAboveRoot res seg =
     (if seg = [] \<or> seg = ''.'' then res
      else if seg = ''..'' then
        (if res \<noteq> [] \<and> last res \<noteq> ''..'' then butlast res
         else if allowAboveRoot then res @ [''..''] else res)
      else res @ [seg])"

definition normalizeString :: "string \<Rightarrow> bool \<Rightarrow> string" where
  "normalizeString path allowAboveRoot =
     joinWith ''/'' (foldl (normalizeStep allowAboveRoot) [] (splitOn (CHR ''/'') path))"

definition path_normalize :: "string \<Rightarrow> string" where
  "path_normalize path =
     (if path = [] then ''.''
      else
        (let isAbsolute = (hd path = CHR ''/'');
             trailingSeparator = (last path = CHR ''/'');
             p = normalizeString path (\<not> isAbsolute)
         in if p = [] then (if isAbsolute then ''/'' else if trailingSeparator then ''./'' else ''.'')
            else (let p = (if trailingSeparator then p @ ''/'' else p)
                  in if isAbsolute then CHR ''/'' # p else p)))"

text \<open>\<^verbatim>\<open>path.join(a, b)\<close>: the non-empty arguments joined by a slash, then normalised.\<close>

definition path_join :: "string \<Rightarrow> string \<Rightarrow> string" where
  "path_join a b =
     (let joined = (if a = [] then b else if b = [] then a else a @ ''/'' @ b)
      in if joined = [] then ''.'' else path_normalize joined)"

text \<open>
  \<^verbatim>\<open>path.dirname\<close>: scanning from the end down to index 1, trailing slashes are
  skipped, then the first slash met ends the directory part. \<open>r2\<close> below is what is left
  of the reversed tail at that slash.
\<close>

definition path_dirname :: "string \<Rightarrow> string" where
  "path_dirname path =
     (if path = [] then ''.''
      else
        (let hasRoot = (hd path = CHR ''/'');
             r1 = dropWhile (\<lambda>c. c = CHR ''/'') (rev (tl path));
             r2 = dropWhile (\<lambda>c. c \<noteq> CHR ''/'') r1
         in if r2 = [] then (if hasRoot then ''/'' else ''.'')
            else if hasRoot \<and> length r2 = 1 then ''//''
            else take (length r2) path))"

text \<open>
  \<^verbatim>\<open>path.extname\<close>: the last segment without trailing slashes, from its last dot on;
  empty when there is no dot, when the only dot is the first character, or for \<^verbatim>\<open>..\<close>.
\<close>

definition path_basename :: "string \<Rightarrow> string" where
  "path_basename path =
     rev (takeWhile (\<lambda>c. c \<noteq> CHR ''/'') (dropWhile (\<lambda>c. c = CHR ''/'') (rev path)))"

definition path_extname :: "string \<Rightarrow> string" where
  "path_extname path =
     (let base = path_basename path;
          ext = rev (takeWhile (\<lambda>c. c \<noteq> CHR ''.'') (rev base))
      in if CHR ''.'' \<notin> set base then []
         else if length ext + 1 = length base then []
         else if base = ''..'' then []
         else CHR ''.'' # ext)"

section \<open>File dependency graph (dependencies.ts, analyzeFileDependencies)\<close>

text \<open>Lines 80 to 82.\<close>

definition isRelativeImport :: "string \<Rightarrow> bool" where
  "isRelativeImport src = (startsWith src ''.'' \<or> startsWith src ''/'')"

text \<open>Line 121: the probe order.\<close>

definition extensions :: "string list" where
  "extensions = ['''', ''.ts'', ''.tsx'', ''.js'', ''.jsx'',
                 ''/index.ts'', ''/index.tsx'', ''/index.js'', ''/index.jsx'']"

text \<open>Line 123 and line 125: \<^verbatim>\<open>candidate.replace(/\.js$/, '.ts')\<close> rewrites a final \<^verbatim>\<open>.js\<close>.\<close>

definition candidate :: "string \<Rightarrow> string \<Rightarrow> string" where
  "candidate resolved ext = slashes (resolved @ ext)"

definition candidateAlt :: "string \<Rightarrow> string \<Rightarrow> string" where
  "candidateAlt resolved ext =
     (let c = candidate resolved ext
      in slashes (if endsWith c ''.js'' then take (length c - 3) c @ ''.ts'' else c))"

text \<open>
  Lines 122 to 135, the loop over the extensions: \<^verbatim>\<open>find\<close> returns the first file of the
  list equal to the candidate or to its variant, and the loop stops at the first extension
  whose match is truthy (a non-empty string).
\<close>

fun tryExtensions :: "string list \<Rightarrow> string \<Rightarrow> string list \<Rightarrow> string option" where
  "tryExtensions normalizedFiles resolved [] = None"
| "tryExtensions normalizedFiles resolved (ext # exts) =
     (case find (\<lambda>f. f = candidate resolved ext \<or> f = candidateAlt resolved ext) normalizedFiles of
        Some match \<Rightarrow>
          if match \<noteq> [] then Some match else tryExtensions normalizedFiles resolved exts
      | None \<Rightarrow> tryExtensions normalizedFiles resolved exts)"

text \<open>Lines 117 to 135 for one import of one file.\<close>

definition resolveImport :: "string list \<Rightarrow> string \<Rightarrow> string \<Rightarrow> string option" where
  "resolveImport normalizedFiles file importSource =
     (let dirname = path_dirname file;
          resolved = slashes (path_join dirname importSource)
      in tryExtensions normalizedFiles resolved extensions)"

text \<open>Lines 114 to 136: the links one file contributes, in the order of its imports.\<close>

definition fileLinks :: "string list \<Rightarrow> string \<Rightarrow> string list \<Rightarrow> Link list" where
  "fileLinks normalizedFiles file imports =
     concat (map (\<lambda>importSource.
        if \<not> isRelativeImport importSource then []
        else (case resolveImport normalizedFiles file importSource of
                None \<Rightarrow> []
              | Some match \<Rightarrow> [\<lparr>source = slashes file, target = match\<rparr>])) imports)"

text \<open>
  Lines 108 to 140. Reading a file and extracting its imports (the Babel parser, an
  external collaborator) is the parameter \<open>readImports\<close>: \<open>None\<close> when reading the file
  throws, which the \<^verbatim>\<open>catch\<close> of line 137 turns into no links for that file;
  otherwise the specifiers in traversal order (none when parsing fails).
\<close>

definition discoverLinks :: "string list \<Rightarrow> (string \<Rightarrow> string list option) \<Rightarrow> Link list" where
  "discoverLinks files readImports =
     concat (map (\<lambda>file. case readImports file of
                            None \<Rightarrow> []
                          | Some imports \<Rightarrow> fileLinks (map slashes files) file imports) files)"

definition analyzeFileDependencies ::
  "string list \<Rightarrow> (string \<Rightarrow> string list option) \<Rightarrow> DependencyGraph" where
  "analyzeFileDependencies files readImports =
     (let nodes = map slashes files;
          links = discoverLinks files readImports
      in \<lparr>nodes = take 1000 nodes, links = take 2000 links\<rparr>)"

section \<open>Package usage (dependencies.ts, analyzePackageDeps)\<close>

text \<open>
  A value of the parsed manifest, as far as the classifier tells values apart: a string, a
  truthy value that is not a string (a number other than 0, \<^verbatim>\<open>true\<close>, an array, an
  object), or a falsy value that is not a string (\<^verbatim>\<open>null\<close>, \<^verbatim>\<open>false\<close>, 0).
  \<^verbatim>\<open>readJson\<close> checks no types.
\<close>

datatype JsonValue = JString string | JTruthy | JFalsy

text \<open>
  A JavaScript object is the association list of its own properties, with distinct keys,
  in the order of their creation. \<open>setProperty\<close> is the assignment \<^verbatim>\<open>obj[k] = v\<close>:
  an existing key keeps its place, a new key goes last.
\<close>

type_synonym object = "(string \<times> JsonValue) list"

fun setProperty :: "object \<Rightarrow> string \<Rightarrow> JsonValue \<Rightarrow> object" where
  "setProperty [] k v = [(k, v)]"
| "setProperty ((k', v') # ps) k v =
     (if k' = k then (k, v) # ps else (k', v') # setProperty ps k v)"

text \<open>Line 172: \<^verbatim>\<open>{ ...dependencies, ...devDependencies }\<close>.\<close>

definition spread :: "object \<Rightarrow> object \<Rightarrow> object" where
  "spread a b = foldl (\<lambda>acc (k, v). setProperty acc k v) [] (a @ b)"

text \<open>
  \<^verbatim>\<open>Object.keys\<close>: first the keys that are array indices (a decimal numeral without
  leading zero, below \<open>2^32 - 1\<close>) in ascending numeric order, then the other keys in
  the order of their creation.
\<close>

definition indexValue :: "string \<Rightarrow> int" where
  "indexValue k = foldl (\<lambda>n c. 10 * n + (of_char c - 48)) 0 k"

definition isArrayIndex :: "string \<Rightarrow> bool" where
  "isArrayIndex k =
     (k \<noteq> [] \<and> list_all (\<lambda>c. 48 \<le> (of_char c :: int) \<and> (of_char c :: int) \<le> 57) k
      \<and> (k = ''0'' \<or> take 1 k \<noteq> ''0'') \<and> indexValue k < 4294967295)"

definition objectKeys :: "object \<Rightarrow> string list" where
  "objectKeys obj =
     sort_key indexValue (filter isArrayIndex (map fst obj))
     @ filter (\<lambda>k. \<not> isArrayIndex k) (map fst obj)"

text \<open>
  The manifest as \<^verbatim>\<open>fs.readJson\<close> returns it. Each field is the list of the own
  properties of \<^verbatim>\<open>pkg.dependencies\<close> or \<^verbatim>\<open>pkg.devDependencies\<close>, which is what the
  spread of line 172 copies, and \<open>None\<close> when the value is missing or falsy, which
  \<^verbatim>\<open>|| {}\<close> replaces by the empty object.
\<close>

record PackageJson =
  pkg_dependencies :: "object option"
  pkg_devDependencies :: "object option"

text \<open>
  What lines 166 to 171 find: no \<^verbatim>\<open>package.json\<close>; one that cannot be read or parsed
  (\<^verbatim>\<open>readJson\<close> throws); one whose content is \<^verbatim>\<open>null\<close> (reading
  \<^verbatim>\<open>pkg.dependencies\<close> throws); or the parsed manifest.
\<close>

datatype ManifestRead = ManifestAbsent | ManifestUnreadable | ManifestNull | ManifestParsed PackageJson

record Outdated =
  o_name :: string
  current :: string
  latest :: string

record PackageDependencies =
  dependencies :: object
  devDependencies :: object
  used :: "string list"
  unused :: "string list"
  outdated :: "Outdated list"
  suggestions :: "string list"

text \<open>Lines 88 to 95. \<^verbatim>\<open>split\<close> returns at least one piece, so index 0 exists.\<close>

definition getPackageName :: "string \<Rightarrow> string" where
  "getPackageName src =
     (if startsWith src ''@'' then joinWith ''/'' (take 2 (splitOn (CHR ''/'') src))
      else (case splitOn (CHR ''/'') src of [] \<Rightarrow> [] | p # _ \<Rightarrow> p))"

text \<open>Lines 200 to 207.\<close>

definition BUILD_TIME_PACKAGES :: "string list" where
  "BUILD_TIME_PACKAGES = [''typescript'', ''@types/'', ''eslint'', ''prettier'',
     ''ts-node'', ''tsx'', ''jest'', ''mocha'', ''vitest'',
     ''webpack'', ''vite'', ''rollup'', ''esbuild'', ''turbo'']"

definition isBuildTimeDep :: "string \<Rightarrow> bool" where
  "isBuildTimeDep dep = (dep \<in> set BUILD_TIME_PACKAGES \<or> startsWith dep ''@types/'')"

text \<open>
  Lines 176 to 195: the declared package names that some readable file imports. The set
  \<^verbatim>\<open>usedPackages\<close> is the list of its insertions; only membership is asked of it.
\<close>

definition usedPackages :: "string list \<Rightarrow> string list \<Rightarrow> (string \<Rightarrow> string list option) \<Rightarrow> string list" where
  "usedPackages allDepNames files readImports =
     concat (map (\<lambda>file. case readImports file of
                            None \<Rightarrow> []
                          | Some imports \<Rightarrow>
                              filter (\<lambda>pkgName. pkgName \<in> set allDepNames)
                                (map getPackageName
                                  (filter (\<lambda>src. \<not> isRelativeImport src) imports))) files)"

text \<open>Lines 156 to 163.\<close>

definition defaultResult :: PackageDependencies where
  "defaultResult = \<lparr>dependencies = [], devDependencies = [], used = [], unused = [],
                     outdated = [], suggestions = []\<rparr>"

text \<open>
  Lines 215 to 219, the callback of the filter: \<^verbatim>\<open>version && !version.startsWith(...)\<close>.
  A falsy version is not flagged; a string is flagged when it is non-empty and starts with
  none of \<^verbatim>\<open>^ ~ *\<close>; a truthy value that is not a string has no \<^verbatim>\<open>startsWith\<close>,
  and the call throws a \<^verbatim>\<open>TypeError\<close>, which is \<open>None\<close> here.
\<close>

definition looksPinned :: "object \<Rightarrow> string \<Rightarrow> bool option" where
  "looksPinned allDeps dep =
     (case map_of allDeps dep of
        None \<Rightarrow> Some False
      | Some JFalsy \<Rightarrow> Some False
      | Some JTruthy \<Rightarrow> None
      | Some (JString version) \<Rightarrow>
          Some (version \<noteq> [] \<and> \<not> startsWith version ''^''
                \<and> \<not> startsWith version ''~'' \<and> \<not> startsWith version ''*''))"

text \<open>\<^verbatim>\<open>xs.filter(p)\<close> for a callback that may throw: the first throw ends the filter.\<close>

fun filterThrowing :: "('a \<Rightarrow> bool option) \<Rightarrow> 'a list \<Rightarrow> 'a list option" where
  "filterThrowing p [] = Some []"
| "filterThrowing p (x # xs) =
     (case p x of
        None \<Rightarrow> None
      | Some keep \<Rightarrow>
          (case filterThrowing p xs of
             None \<Rightarrow> None
           | Some ys \<Rightarrow> Some (if keep then x # ys else ys)))"

text \<open>
  Lines 152 to 247. Everything after the manifest is read runs inside the \<^verbatim>\<open>try\<close>
  of line 165, and the \<^verbatim>\<open>catch\<close> of lines 244 to 246 returns the default result for
  any throw: here the throw of the filter of the outdated packages, which comes after
  \<^verbatim>\<open>used\<close> and \<^verbatim>\<open>unused\<close> are computed and discards them.
\<close>

definition analyzePackageDeps ::
  "ManifestRead \<Rightarrow> string list \<Rightarrow> (string \<Rightarrow> string list option) \<Rightarrow> PackageDependencies" where
  "analyzePackageDeps manifest files readImports =
     (case manifest of
        ManifestAbsent \<Rightarrow> defaultResult
      | ManifestUnreadable \<Rightarrow> defaultResult
      | ManifestNull \<Rightarrow> defaultResult
      | ManifestParsed pkg \<Rightarrow>
          (let deps = (case pkg_dependencies pkg of None \<Rightarrow> [] | Some d \<Rightarrow> d);
               devDeps = (case pkg_devDependencies pkg of None \<Rightarrow> [] | Some d \<Rightarrow> d);
               allDeps = spread deps devDeps;
               allDepNames = objectKeys allDeps;
               usedSet = usedPackages allDepNames files readImports;
               hasTypeScript = (''typescript'' \<in> set allDepNames);
               hasEslint = (''eslint'' \<in> set allDepNames);
               hasPrettier = (''prettier'' \<in> set allDepNames)
           in case filterThrowing (looksPinned allDeps) allDepNames of
                None \<Rightarrow> defaultResult
              | Some pinned \<Rightarrow>
                  \<lparr>dependencies = deps,
                   devDependencies = devDeps,
                   used = filter (\<lambda>dep. dep \<in> set usedSet) allDepNames,
                   unused = filter (\<lambda>dep. dep \<notin> set usedSet \<and> \<not> isBuildTimeDep dep) allDepNames,
                   outdated = map (\<lambda>dep. \<lparr>o_name = dep,
                                             current = (case map_of allDeps dep of
                                                          Some (JString v) \<Rightarrow> v | _ \<Rightarrow> []),
                                             latest = ''check npm registry''\<rparr>) pinned,
                   suggestions =
                     (if \<not> hasTypeScript then [''typescript - Add type safety to your project''] else [])
                     @ (if \<not> hasEslint then [''eslint - Add code quality linting''] else [])
                     @ (if \<not> hasPrettier then [''prettier - Add consistent code formatting''] else [])\<rparr>))"

section \<open>Dependency audit (analyzer/security.ts, runNpmAudit)\<close>

text \<open>
  The parsed output of \<^verbatim>\<open>npm audit --json\<close>, with the fields the function reads. An
  entry of \<^verbatim>\<open>via\<close> is an object with optional \<^verbatim>\<open>title\<close> and \<^verbatim>\<open>name\<close>, or something
  that is not an object; a \<^verbatim>\<open>via\<close> that is not an array is kept as the string
  \<^verbatim>\<open>String(vuln.via)\<close>. Severities are the strings found in the output.
\<close>

datatype ViaEntry = ViaObject "string option" "string option" | ViaNonObject

datatype Via = ViaArray "ViaEntry list" | ViaOther string

record AuditVuln =
  av_severity :: string
  av_range :: "string option"
  av_via :: Via

record Advisory =
  adv_module_name :: string
  adv_title :: string
  adv_severity :: string
  adv_overview :: "string option"

record AuditResult =
  vulnerabilities :: "(string \<times> AuditVuln) list option"
  advisories :: "Advisory list option"

text \<open>
  The outcome of \<^verbatim>\<open>execAsync\<close>: the standard output of a run that exited with 0, or a
  rejection whose error may carry a \<^verbatim>\<open>stdout\<close> (npm exits with non-zero when it
  reports vulnerabilities; a missing tool or a timeout carries none).
\<close>

datatype ExecResult = ExecOk string | ExecFailed "string option"

text \<open>\<^verbatim>\<open>v.title || v.name\<close>, as \<^verbatim>\<open>join\<close> prints it (\<^verbatim>\<open>undefined\<close> prints as nothing).\<close>

definition viaLabel :: "ViaEntry \<Rightarrow> string" where
  "viaLabel v =
     (case v of
        ViaObject t n \<Rightarrow>
          (case t of
             Some s \<Rightarrow> if s \<noteq> [] then s else (case n of Some m \<Rightarrow> m | None \<Rightarrow> [])
           | None \<Rightarrow> (case n of Some m \<Rightarrow> m | None \<Rightarrow> []))
      | ViaNonObject \<Rightarrow> [])"

definition isViaObject :: "ViaEntry \<Rightarrow> bool" where
  "isViaObject v = (case v of ViaObject _ _ \<Rightarrow> True | ViaNonObject \<Rightarrow> False)"

text \<open>Lines 122 to 133 (and 156 to 167): one finding per entry of the modern format.\<close>

definition modernFinding :: "string \<times> AuditVuln \<Rightarrow> SecurityVulnerability" where
  "modernFinding entry =
     (let pname = fst entry; vuln = snd entry;
          sev = av_severity vuln;
          via = (case av_via vuln of
                   ViaArray vs \<Rightarrow> joinWith '', '' (map viaLabel (filter isViaObject vs))
                 | ViaOther s \<Rightarrow> s)
      in \<lparr>name = pname @ '' ('' @ (case av_range vuln of Some r \<Rightarrow> r | None \<Rightarrow> []) @ '')'',
          severity = (if sev \<in> set [''low'', ''medium'', ''high'', ''critical''] then sev else ''low''),
          description = (if via \<noteq> [] then via
                         else ''Vulnerable version: '' @
                              (case av_range vuln of Some r \<Rightarrow> r | None \<Rightarrow> ''undefined'')),
          vsource = NpmAudit,
          vfile = None,
          line = None,
          category = Some ''Dependency Vulnerability''\<rparr>)"

text \<open>
  Lines 139 to 145: one finding per advisory of the legacy format. The separator in the
  name is an en dash between two spaces, here as its three UTF-8 bytes.
\<close>

definition legacyFinding :: "Advisory \<Rightarrow> SecurityVulnerability" where
  "legacyFinding advisory =
     \<lparr>name = adv_module_name advisory @ [CHR 0x20, CHR 0xE2, CHR 0x80, CHR 0x93, CHR 0x20] @ adv_title advisory,
      severity = adv_severity advisory,
      description = (case adv_overview advisory of
                       Some s \<Rightarrow> if s \<noteq> [] then s else adv_title advisory
                     | None \<Rightarrow> adv_title advisory),
      vsource = NpmAudit,
      vfile = None,
      line = None,
      category = Some ''Dependency Vulnerability''\<rparr>"

text \<open>
  Lines 101 to 177. \<open>JSON_parse\<close> is \<^verbatim>\<open>JSON.parse\<close> followed by reading the two
  fields; \<open>None\<close> when it throws. A throw inside the \<^verbatim>\<open>try\<close> reaches the
  \<^verbatim>\<open>catch\<close> with an error that has no \<^verbatim>\<open>stdout\<close>, which leaves the list empty. The
  \<^verbatim>\<open>catch\<close> reads the modern format only.
\<close>

definition runNpmAudit ::
  "(string \<Rightarrow> AuditResult option) \<Rightarrow> bool \<Rightarrow> bool \<Rightarrow> ExecResult \<Rightarrow> SecurityVulnerability list" where
  "runNpmAudit JSON_parse pkgJsonExists lockExists execResult =
     (if \<not> pkgJsonExists \<or> \<not> lockExists then []
      else
        (case execResult of
           ExecOk stdout \<Rightarrow>
             (case JSON_parse stdout of
                None \<Rightarrow> []
              | Some auditResult \<Rightarrow>
                  (case vulnerabilities auditResult of
                     Some vs \<Rightarrow> map modernFinding vs
                   | None \<Rightarrow>
                       (case advisories auditResult of
                          Some advs \<Rightarrow> map legacyFinding advs
                        | None \<Rightarrow> [])))
         | ExecFailed out \<Rightarrow>
             (case out of
                None \<Rightarrow> []
              | Some stdout \<Rightarrow>
                  if stdout = [] then []
                  else
                    (case JSON_parse stdout of
                       None \<Rightarrow> []
                     | Some auditResult \<Rightarrow>
                         (case vulnerabilities auditResult of
                            Some vs \<Rightarrow> map modernFinding vs
                          | None \<Rightarrow> [])))))"

section \<open>Structural scan (analyzer/security.ts, DANGEROUS\_PATTERNS and the traversal)\<close>

text \<open>
  The syntax tree of the Babel parser, an external collaborator, with the node kinds and
  fields the six checks read; every other kind is \<open>OtherNode\<close> with its children. The
  last field of a call, a constructor call, an assignment and a JSX attribute is
  \<^verbatim>\<open>node.loc?.start.line\<close>. Babel parses \<^verbatim>\<open>f(x)\<close> to a \<^verbatim>\<open>CallExpression\<close> and
  \<^verbatim>\<open>new F(x)\<close> to a \<^verbatim>\<open>NewExpression\<close>.
\<close>

datatype Node =
    Identifier string
  | StringLiteral string
  | MemberExpression Node Node
  | CallExpression Node "Node list" "nat option"
  | NewExpression Node "Node list" "nat option"
  | AssignmentExpression Node Node "nat option"
  | JSXAttribute string "Node list" "nat option"
  | OtherNode "Node list"

record CodePattern =
  p_name :: string
  p_category :: string
  p_severity :: string
  p_description :: string
  p_check :: "Node \<Rightarrow> bool"

text \<open>\<^verbatim>\<open>nodePath.node.callee\<close>: defined for the two kinds of call.\<close>

definition callee :: "Node \<Rightarrow> Node option" where
  "callee n = (case n of CallExpression c _ _ \<Rightarrow> Some c | NewExpression c _ _ \<Rightarrow> Some c | _ \<Rightarrow> None)"

definition isIdentifierNamed :: "Node \<Rightarrow> string list \<Rightarrow> bool" where
  "isIdentifierNamed n names = (case n of Identifier x \<Rightarrow> x \<in> set names | _ \<Rightarrow> False)"

definition checkEval :: "Node \<Rightarrow> bool" where
  "checkEval n = (case callee n of Some c \<Rightarrow> isIdentifierNamed c [''eval''] | None \<Rightarrow> False)"

definition checkFunction :: "Node \<Rightarrow> bool" where
  "checkFunction n = (case callee n of Some c \<Rightarrow> isIdentifierNamed c [''Function''] | None \<Rightarrow> False)"

definition checkExec :: "Node \<Rightarrow> bool" where
  "checkExec n =
     (case callee n of
        Some (Identifier x) \<Rightarrow> x = ''exec'' \<or> x = ''execSync''
      | Some (MemberExpression obj prop) \<Rightarrow> isIdentifierNamed prop [''exec'', ''execSync'']
      | _ \<Rightarrow> False)"

definition checkInnerHTML :: "Node \<Rightarrow> bool" where
  "checkInnerHTML n =
     (case n of
        AssignmentExpression (MemberExpression obj prop) right lineNo \<Rightarrow> isIdentifierNamed prop [''innerHTML'']
      | _ \<Rightarrow> False)"

definition checkDangerouslySet :: "Node \<Rightarrow> bool" where
  "checkDangerouslySet n =
     (case n of JSXAttribute attr val lineNo \<Rightarrow> attr = ''dangerouslySetInnerHTML'' | _ \<Rightarrow> False)"

definition checkDocumentWrite :: "Node \<Rightarrow> bool" where
  "checkDocumentWrite n =
     (case callee n of
        Some (MemberExpression obj prop) \<Rightarrow>
          isIdentifierNamed obj [''document''] \<and> isIdentifierNamed prop [''write'']
      | _ \<Rightarrow> False)"

text \<open>Lines 22 to 87.\<close>

definition DANGEROUS_PATTERNS :: "CodePattern list" where
  "DANGEROUS_PATTERNS = [
     \<lparr>p_name = ''eval() Usage'', p_category = ''Code Injection'', p_severity = ''critical'',
      p_description = ''eval() executes arbitrary code and is a major injection risk. Use safer alternatives like JSON.parse() or Function constructors.'',
      p_check = checkEval\<rparr>,
     \<lparr>p_name = ''Function() Constructor'', p_category = ''Code Injection'', p_severity = ''high'',
      p_description = ''new Function() dynamically creates functions from strings, similar to eval(). Avoid using user input.'',
      p_check = checkFunction\<rparr>,
     \<lparr>p_name = ''child_process exec()'', p_category = ''Command Injection'', p_severity = ''high'',
      p_description = ''exec() runs shell commands and is vulnerable to command injection. Prefer execFile() with explicit arguments.'',
      p_check = checkExec\<rparr>,
     \<lparr>p_name = ''innerHTML Assignment'', p_category = ''Cross-Site Scripting (XSS)'', p_severity = ''medium'',
      p_description = ''innerHTML injects raw HTML and can lead to XSS. Use textContent or a sanitization library instead.'',
      p_check = checkInnerHTML\<rparr>,
     \<lparr>p_name = ''dangerouslySetInnerHTML'', p_category = ''Cross-Site Scripting (XSS)'', p_severity = ''medium'',
      p_description = ''dangerouslySetInnerHTML renders raw HTML in React components. Ensure content is properly sanitized.'',
      p_check = checkDangerouslySet\<rparr>,
     \<lparr>p_name = ''document.write()'', p_category = ''Cross-Site Scripting (XSS)'', p_severity = ''medium'',
      p_description = ''document.write() is a legacy DOM method that can overwrite the entire page and is XSS-prone.'',
      p_check = checkDocumentWrite\<rparr>]"

definition codeFinding :: "CodePattern \<Rightarrow> string \<Rightarrow> nat option \<Rightarrow> SecurityVulnerability" where
  "codeFinding pattern relativePath lineNo =
     \<lparr>name = p_name pattern, severity = p_severity pattern, description = p_description pattern,
      vsource = CodeScan, vfile = Some relativePath, line = lineNo,
      category = Some (p_category pattern)\<rparr>"

text \<open>\<^verbatim>\<open>DANGEROUS_PATTERNS.find(p => p.name === n)\<close> followed by its check (lines 219 and 233).\<close>

definition findingOfNamed :: "string \<Rightarrow> Node \<Rightarrow> string \<Rightarrow> nat option \<Rightarrow> SecurityVulnerability list" where
  "findingOfNamed n node relativePath lineNo =
     (case find (\<lambda>p. p_name p = n) DANGEROUS_PATTERNS of
        Some pattern \<Rightarrow> if p_check pattern node then [codeFinding pattern relativePath lineNo] else []
      | None \<Rightarrow> [])"

text \<open>
  The three visitors of lines 201 to 245, for one node: only a \<^verbatim>\<open>CallExpression\<close>, an
  \<^verbatim>\<open>AssignmentExpression\<close> and a \<^verbatim>\<open>JSXAttribute\<close> are visited.
\<close>

definition visit :: "string \<Rightarrow> Node \<Rightarrow> SecurityVulnerability list" where
  "visit relativePath node =
     (case node of
        CallExpression c args lineNo \<Rightarrow>
          map (\<lambda>pattern. codeFinding pattern relativePath lineNo)
            (filter (\<lambda>pattern. p_check pattern node)
              (filter (\<lambda>p. p_name p \<noteq> ''innerHTML Assignment'' \<and> p_name p \<noteq> ''dangerouslySetInnerHTML'')
                 DANGEROUS_PATTERNS))
      | AssignmentExpression left right lineNo \<Rightarrow> findingOfNamed ''innerHTML Assignment'' node relativePath lineNo
      | JSXAttribute attr val lineNo \<Rightarrow> findingOfNamed ''dangerouslySetInnerHTML'' node relativePath lineNo
      | _ \<Rightarrow> [])"

text \<open>\<^verbatim>\<open>traverse\<close>: every node of the tree, parents before children, children in source order.\<close>

fun traverse :: "string \<Rightarrow> Node \<Rightarrow> SecurityVulnerability list" where
  "traverse rel (Identifier x) = visit rel (Identifier x)"
| "traverse rel (StringLiteral s) = visit rel (StringLiteral s)"
| "traverse rel (MemberExpression obj prop) =
     visit rel (MemberExpression obj prop) @ traverse rel obj @ traverse rel prop"
| "traverse rel (CallExpression c args lineNo) =
     visit rel (CallExpression c args lineNo) @ traverse rel c @ concat (map (traverse rel) args)"
| "traverse rel (NewExpression c args lineNo) =
     visit rel (NewExpression c args lineNo) @ traverse rel c @ concat (map (traverse rel) args)"
| "traverse rel (AssignmentExpression left right lineNo) =
     visit rel (AssignmentExpression left right lineNo) @ traverse rel left @ traverse rel right"
| "traverse rel (JSXAttribute attr val lineNo) =
     visit rel (JSXAttribute attr val lineNo) @ concat (map (traverse rel) val)"
| "traverse rel (OtherNode children) =
     visit rel (OtherNode children) @ concat (map (traverse rel) children)"

section \<open>Secret patterns (analyzer/security.ts, SECRET\_PATTERNS)\<close>

text \<open>
  The five regular expressions use literals, character classes, an optional character,
  alternation, and a class repeated at least \<open>n\<close> times. \<open>Rx\<close> has exactly these
  constructs, over code units. \<open>rxMatch r w\<close> lists what is left of \<open>w\<close> after each way
  of matching \<open>r\<close> at the start of \<open>w\<close>, so \<open>r\<close> matches at the start of \<open>w\<close> when
  the list is not empty, and \<^verbatim>\<open>regex.test(line)\<close>, which looks for a match at any
  position, is \<open>rxTest\<close>.
\<close>

datatype Rx =
    Eps
  | Sym "codeunit \<Rightarrow> bool"
  | Seq Rx Rx
  | Alt Rx Rx
  | Opt Rx
  | AtLeast nat "codeunit \<Rightarrow> bool"

fun rxMatch :: "Rx \<Rightarrow> codeunit list \<Rightarrow> codeunit list list" where
  "rxMatch Eps w = [w]"
| "rxMatch (Sym P) w = (case w of [] \<Rightarrow> [] | c # cs \<Rightarrow> if P c then [cs] else [])"
| "rxMatch (Seq r s) w = concat (map (rxMatch s) (rxMatch r w))"
| "rxMatch (Alt r s) w = rxMatch r w @ rxMatch s w"
| "rxMatch (Opt r) w = rxMatch r w @ [w]"
| "rxMatch (AtLeast n P) w =
     map (\<lambda>k. drop k w) (rev [n..<Suc (length (takeWhile P w))])"

fun tails :: "'a list \<Rightarrow> 'a list list" where
  "tails [] = [[]]"
| "tails (c # cs) = (c # cs) # tails cs"

definition rxTest :: "Rx \<Rightarrow> codeunit list \<Rightarrow> bool" where
  "rxTest r lineText = list_ex (\<lambda>t. rxMatch r t \<noteq> []) (tails lineText)"

definition isUpper :: "codeunit \<Rightarrow> bool" where
  "isUpper u = (65 \<le> u \<and> u \<le> 90)"

definition isLower :: "codeunit \<Rightarrow> bool" where
  "isLower u = (97 \<le> u \<and> u \<le> 122)"

definition isDigit :: "codeunit \<Rightarrow> bool" where
  "isDigit u = (48 \<le> u \<and> u \<le> 57)"

text \<open>
  The flag \<^verbatim>\<open>i\<close> (without \<^verbatim>\<open>u\<close>): two code units match when their upper-case
  forms agree, and a code unit from 128 on is never mapped to one below 128. So a literal
  ASCII character matches itself and, for a letter, its other case, and nothing else;
  the classes of the five patterns, which hold both cases of every letter, match the same
  code units with and without the flag.
\<close>

definition lowerUnit :: "codeunit \<Rightarrow> codeunit" where
  "lowerUnit u = (if isUpper u then u + 32 else u)"

definition lit :: "string \<Rightarrow> Rx" where
  "lit s = foldr (\<lambda>c r. Seq (Sym (\<lambda>u. lowerUnit u = lowerUnit (of_char c))) r) s Eps"

text \<open>\<^verbatim>\<open>name.toLowerCase()\<close> for the names of the patterns, which are ASCII.\<close>

definition toLowerChar :: "char \<Rightarrow> char" where
  "toLowerChar c = (if isUpper (of_char c) then char_of (of_char c + (32 :: int)) else c)"

definition toLowerCase :: "string \<Rightarrow> string" where
  "toLowerCase s = map toLowerChar s"

text \<open>
  White space and line terminators of ECMAScript, the code units that \<^verbatim>\<open>\s\<close> matches
  and \<^verbatim>\<open>trim\<close> removes: tab, line feed, vertical tab, form feed, carriage return,
  space, U+00A0, U+1680, U+2000 to U+200A, U+2028, U+2029, U+202F, U+205F, U+3000 and
  U+FEFF.
\<close>

definition isSpace :: "codeunit \<Rightarrow> bool" where
  "isSpace u =
     (u \<in> set [9, 10, 11, 12, 13, 32, 160, 5760, 8232, 8233, 8239, 8287, 12288, 65279]
      \<or> (8192 \<le> u \<and> u \<le> 8202))"

definition trim :: "codeunit list \<Rightarrow> codeunit list" where
  "trim s = rev (dropWhile isSpace (rev (dropWhile isSpace s)))"

definition oneOf :: "string \<Rightarrow> codeunit \<Rightarrow> bool" where
  "oneOf s u = (u \<in> set (units s))"

text \<open>The two quotes, \<^verbatim>\<open>'\<close> and \<^verbatim>\<open>"\<close>.\<close>

definition isQuote :: "codeunit \<Rightarrow> bool" where
  "isQuote u = (u = 39 \<or> u = 34)"

text \<open>
  The common tail of the five patterns:
  \<^verbatim>\<open>\s*[:=]\s*['"]\<close>, the class at least \<open>n\<close> times, \<^verbatim>\<open>['"]\<close>.
\<close>

definition assigned :: "nat \<Rightarrow> (codeunit \<Rightarrow> bool) \<Rightarrow> Rx" where
  "assigned n cls =
     Seq (AtLeast 0 isSpace) (Seq (Sym (oneOf '':=''))
       (Seq (AtLeast 0 isSpace) (Seq (Sym isQuote) (Seq (AtLeast n cls) (Sym isQuote)))))"

definition isWord :: "codeunit \<Rightarrow> bool" where
  "isWord u = (isUpper u \<or> isLower u \<or> isDigit u)"

record SecretPattern =
  s_pattern :: Rx
  s_name :: string
  s_severity :: string

text \<open>Lines 91 to 97, in the source's order.\<close>

definition SECRET_PATTERNS :: "SecretPattern list" where
  "SECRET_PATTERNS = [
     \<lparr>s_pattern = Seq (Alt (Seq (lit ''api'') (Seq (Opt (Sym (oneOf ''_-''))) (lit ''key''))) (lit ''apikey''))
                      (assigned 16 (\<lambda>u. isWord u \<or> oneOf ''_-'' u)),
      s_name = ''Hardcoded API Key'', s_severity = ''high''\<rparr>,
     \<lparr>s_pattern = Seq (Alt (lit ''secret'') (Alt (lit ''password'') (Alt (lit ''passwd'') (lit ''pwd''))))
                      (assigned 8 (\<lambda>u. \<not> isQuote u)),
      s_name = ''Hardcoded Secret/Password'', s_severity = ''critical''\<rparr>,
     \<lparr>s_pattern = Seq (Alt (lit ''aws_access_key_id'') (lit ''aws_secret_access_key''))
                      (assigned 16 (\<lambda>u. isWord u \<or> oneOf ''/+='' u)),
      s_name = ''AWS Credentials'', s_severity = ''critical''\<rparr>,
     \<lparr>s_pattern = Seq (Seq (lit ''private'') (Seq (Opt (Sym (oneOf ''_-''))) (lit ''key'')))
                      (assigned 20 (\<lambda>u. \<not> isQuote u)),
      s_name = ''Private Key Exposure'', s_severity = ''critical''\<rparr>,
     \<lparr>s_pattern = Seq (lit ''token'') (assigned 20 (\<lambda>u. isWord u \<or> oneOf ''_-.'' u)),
      s_name = ''Hardcoded Token'', s_severity = ''high''\<rparr>]"

section \<open>Code scan of one file (analyzer/security.ts, scanFileForVulnerabilities)\<close>

definition secretFinding :: "SecretPattern \<Rightarrow> string \<Rightarrow> nat \<Rightarrow> SecurityVulnerability" where
  "secretFinding secret relativePath i =
     \<lparr>name = s_name secret, severity = s_severity secret,
      description = ''Potential '' @ toLowerCase (s_name secret) @
        '' detected. Never commit secrets to source code. Use environment variables instead.'',
      vsource = CodeScan, vfile = Some relativePath, line = Some (i + 1),
      category = Some ''Sensitive Data Exposure''\<rparr>"

text \<open>Lines 259 to 272: the loop over the patterns, left at the first match.\<close>

fun firstSecret :: "SecretPattern list \<Rightarrow> string \<Rightarrow> nat \<Rightarrow> codeunit list \<Rightarrow> SecurityVulnerability list" where
  "firstSecret [] relativePath i lineText = []"
| "firstSecret (secret # rest) relativePath i lineText =
     (if rxTest (s_pattern secret) lineText then [secretFinding secret relativePath i]
      else firstSecret rest relativePath i lineText)"

text \<open>Line 257.\<close>

definition isCommentLine :: "codeunit list \<Rightarrow> bool" where
  "isCommentLine lineText =
     (let trimmed = trim lineText
      in startsWith trimmed (units ''//'') \<or> startsWith trimmed (units ''*'')
         \<or> startsWith trimmed (units ''/*''))"

text \<open>Lines 253 to 273: the loop over the lines, \<open>i\<close> being the index of the first line left.\<close>

fun secretLoop :: "string \<Rightarrow> nat \<Rightarrow> codeunit list list \<Rightarrow> SecurityVulnerability list" where
  "secretLoop relativePath i [] = []"
| "secretLoop relativePath i (lineText # rest) =
     (if isCommentLine lineText then [] else firstSecret SECRET_PATTERNS relativePath i lineText)
     @ secretLoop relativePath (Suc i) rest"

text \<open>Line 252: \<^verbatim>\<open>content.split('\n')\<close>; the line feed is the code unit 10.\<close>

definition secretScan :: "string \<Rightarrow> codeunit list \<Rightarrow> SecurityVulnerability list" where
  "secretScan relativePath content = secretLoop relativePath 0 (splitOn 10 content)"

definition jsExtensions :: "string list" where
  "jsExtensions = [''.js'', ''.jsx'', ''.ts'', ''.tsx'']"

text \<open>
  Lines 181 to 276. \<open>parse\<close> is the Babel parser: \<open>None\<close> when it throws, which the
  \<^verbatim>\<open>catch\<close> of line 247 turns into no structural finding.
\<close>

definition scanFileForVulnerabilities ::
  "(codeunit list \<Rightarrow> Node option) \<Rightarrow> string \<Rightarrow> codeunit list \<Rightarrow> string \<Rightarrow> SecurityVulnerability list" where
  "scanFileForVulnerabilities parse filePath content relativePath =
     (if path_extname filePath \<notin> set jsExtensions then []
      else (case parse content of None \<Rightarrow> [] | Some ast \<Rightarrow> traverse relativePath ast)
           @ secretScan relativePath content)"

section \<open>All findings (analyzer/security.ts, analyzeSecurity)\<close>

text \<open>
  Line 307. For a severity outside the table the comparator of line 308 yields
  \<^verbatim>\<open>NaN\<close>, which \<^verbatim>\<open>sort\<close> takes for equal; the comparisons are then not
  consistent, and where such a finding ends up depends on the engine's algorithm (it may
  stay where it stood). Here such findings go last. Nothing below depends on the place
  of a finding whose severity is outside the table: the result is used as a set, or on
  inputs whose severities are all in the table.
\<close>

definition severityOrder :: "string \<Rightarrow> nat" where
  "severityOrder s =
     (if s = ''critical'' then 0 else if s = ''high'' then 1 else if s = ''medium'' then 2
      else if s = ''low'' then 3 else 4)"

text \<open>Lines 291 to 304 for one file; \<open>readFile\<close> is \<open>None\<close> when reading throws.\<close>

definition scanProjectFile ::
  "string \<Rightarrow> (string \<Rightarrow> codeunit list option) \<Rightarrow> (codeunit list \<Rightarrow> Node option) \<Rightarrow> string \<Rightarrow> SecurityVulnerability list" where
  "scanProjectFile projectPath readFile parse file =
     (if path_extname file \<notin> set jsExtensions then []
      else (case readFile file of
              None \<Rightarrow> []
            | Some content \<Rightarrow>
                scanFileForVulnerabilities parse (path_join projectPath file) content (slashes file)))"

text \<open>Lines 280 to 311; the sort of JavaScript arrays is stable.\<close>

definition analyzeSecurity ::
  "(string \<Rightarrow> AuditResult option) \<Rightarrow> bool \<Rightarrow> bool \<Rightarrow> ExecResult \<Rightarrow>
   string \<Rightarrow> string list \<Rightarrow> (string \<Rightarrow> codeunit list option) \<Rightarrow>
   (codeunit list \<Rightarrow> Node option) \<Rightarrow> SecurityVulnerability list" where
  "analyzeSecurity JSON_parse pkgJsonExists lockExists execResult projectPath files readFile parse =
     (let auditVulns = runNpmAudit JSON_parse pkgJsonExists lockExists execResult;
          allVulns = auditVulns @ concat (map (scanProjectFile projectPath readFile parse) files)
      in sort_key (\<lambda>v. severityOrder (severity v)) allVulns)"

section \<open>The health score as a sum of integer deductions\<close>

text \<open>
  Every deduction of \<^const>\<open>rawScore\<close> is a whole number, so the raw score is the
  integer \<open>100 - deductions\<close>, it lies between 0 and 100, and neither the clamp nor the
  floor of line 130 changes it.
\<close>

definition commentPenalty :: "ProjectStats \<Rightarrow> int" where
  "commentPenalty stats =
     (if totalCodeLines stats > 0 \<and> totalCommentLines stats * 20 < totalCodeLines stats then 5 else 0)"

definition couplingPenalty :: "DependencyGraph \<Rightarrow> int" where
  "couplingPenalty g = (if length (links g) > 3 * max (length (nodes g)) 1 then 15 else 0)"

definition securityPoints :: "SecurityVulnerability list \<Rightarrow> int" where
  "securityPoints security = min (int (countSeverity ''critical'' security) * 10 +
      int (countSeverity ''high'' security) * 5 + int (countSeverity ''medium'' security) * 2) 30"

definition deductions :: "ProjectStats \<Rightarrow> Hotspot list \<Rightarrow> DependencyGraph \<Rightarrow> nat \<Rightarrow> SecurityVulnerability list \<Rightarrow> int" where
  "deductions stats hotspots g u security =
     (if totalFiles stats > 200 then 10 else 0) + (if totalLOC stats > 10000 then 10 else 0)
     + min (int (activeHotspots hotspots) * 3) 15 + couplingPenalty g + min (int u * 2) 15
     + securityPoints security + commentPenalty stats"

lemma couplingRatio_gt3: "couplingRatio g > 3 \<longleftrightarrow> length (links g) > 3 * max (length (nodes g)) 1"
proof (cases "length (nodes g) = 0")
  case True
  then show ?thesis by (simp add: couplingRatio_def)
next
  case False
  then have pos: "0 < real (length (nodes g))" by simp
  have "couplingRatio g = real (length (links g)) / real (length (nodes g))"
    using False by (simp add: couplingRatio_def)
  moreover have "max (length (nodes g)) 1 = length (nodes g)" using False by (cases "nodes g") (simp_all add: max_def)
  moreover have "(3 < real (length (links g)) / real (length (nodes g))) = (3 * real (length (nodes g)) < real (length (links g)))"
    using pos by (simp add: pos_less_divide_eq)
  moreover have "(3 * real (length (nodes g)) < real (length (links g))) = (3 * length (nodes g) < length (links g))"
    by (metis of_nat_less_iff of_nat_mult of_nat_numeral)
  ultimately show ?thesis by simp
qed

lemma securityPenalty_int: "securityPenalty security = real_of_int (securityPoints security)"
  by (simp add: securityPenalty_def securityPoints_def Let_def min_def)

lemma deductions_range: "0 \<le> deductions st hs g u sec \<and> deductions st hs g u sec \<le> 100"
  by (simp add: deductions_def couplingPenalty_def securityPoints_def commentPenalty_def min_def)

lemma real20: "(real m * 20 < real c) = (m * 20 < c)"
  by (metis of_nat_less_iff of_nat_mult of_nat_numeral)

lemma rawScore_eq: "rawScore st hs g u sec = real_of_int (100 - deductions st hs g u sec)"
proof -
  have h: "min (real (activeHotspots hs) * 3) 15 = real_of_int (min (int (activeHotspots hs) * 3) 15)"
    by (simp add: min_def)
  have un: "min (real u * 2) 15 = real_of_int (min (int u * 2) 15)"
    by (simp add: min_def)
  have cm: "(if totalCodeLines st > 0
             then (if real (totalCommentLines st) / real (totalCodeLines st) < 0.05 then s - 5 else s)
             else s) = s - real_of_int (commentPenalty st)" for s :: real
    by (simp add: commentPenalty_def real20 Let_def)
  have cp: "(if couplingRatio g > 3 then s - 15 else s) = s - real_of_int (couplingPenalty g)" for s :: real
    by (simp add: couplingPenalty_def couplingRatio_gt3)
  have f1: "(if totalFiles st > 200 then s - 10 else s) = s - real_of_int (if totalFiles st > 200 then 10 else 0)" for s :: real
    by simp
  have f2: "(if totalLOC st > 10000 then s - 10 else s) = s - real_of_int (if totalLOC st > 10000 then 10 else 0)" for s :: real
    by simp
  show ?thesis
    unfolding rawScore_def Let_def
    unfolding cm cp f1 f2 h un securityPenalty_int deductions_def
    by simp
qed

lemma score_eq: "calculateHealthScore st hs g u sec = 100 - deductions st hs g u sec"
proof -
  let ?d = "deductions st hs g u sec"
  have r: "0 \<le> ?d" "?d \<le> 100" using deductions_range by auto
  have "calculateHealthScore st hs g u sec = \<lfloor>max 0 (min 100 (real_of_int (100 - ?d)))\<rfloor>"
    by (simp only: calculateHealthScore_def rawScore_eq)
  also have "\<dots> = 100 - ?d" using r by (simp add: min_def max_def)
  finally show ?thesis .
qed

lemma deductions_mono:
  assumes "totalFiles st \<le> totalFiles st'" "totalLOC st \<le> totalLOC st'"
    "totalCodeLines st \<le> totalCodeLines st'" "totalCommentLines st' \<le> totalCommentLines st"
    "activeHotspots hs \<le> activeHotspots hs'"
    "length (links g) \<le> length (links g')" "length (nodes g') \<le> length (nodes g)"
    "u \<le> u'"
    "countSeverity ''critical'' sec \<le> countSeverity ''critical'' sec'"
    "countSeverity ''high'' sec \<le> countSeverity ''high'' sec'"
    "countSeverity ''medium'' sec \<le> countSeverity ''medium'' sec'"
  shows "deductions st hs g u sec \<le> deductions st' hs' g' u' sec'"
proof -
  have a: "(if totalFiles st > 200 then 10 else 0::int) \<le> (if totalFiles st' > 200 then 10 else 0)"
    using assms(1) by simp
  have b: "(if totalLOC st > 10000 then 10 else 0::int) \<le> (if totalLOC st' > 10000 then 10 else 0)"
    using assms(2) by simp
  have c: "min (int (activeHotspots hs) * 3) 15 \<le> min (int (activeHotspots hs') * 3) 15"
    using assms(5) by simp
  have "3 * max (length (nodes g')) 1 \<le> 3 * max (length (nodes g)) 1"
    using assms(7) by (simp add: max_def)
  then have "3 * max (length (nodes g)) 1 < length (links g) \<Longrightarrow>
      3 * max (length (nodes g')) 1 < length (links g')"
    using assms(6) by linarith
  then have d: "couplingPenalty g \<le> couplingPenalty g'"
    unfolding couplingPenalty_def by (simp del: One_nat_def)
  have e: "min (int u * 2) 15 \<le> min (int u' * 2) 15"
    using assms(8) by simp
  have f: "securityPoints sec \<le> securityPoints sec'"
    unfolding securityPoints_def using assms(9,10,11) by simp
  have "totalCommentLines st' * 20 \<le> totalCommentLines st * 20"
    using assms(4) by simp
  then have g: "commentPenalty st \<le> commentPenalty st'"
    using assms(3) by (simp add: commentPenalty_def)
  show ?thesis unfolding deductions_def using a b c d e f g by linarith
qed

lemma countSeverity_append: "countSeverity s (xs @ ys) = countSeverity s xs + countSeverity s ys"
  by (simp add: countSeverity_def)

text \<open>
  Claim C1. For all inputs the health score is an integer between 0 and 100; the security
  deduction is at most 30, and a list with five critical and five high findings deducts
  exactly 30; appending one more finding never raises the score; and the score does not
  rise when the inputs worsen: more files, more lines, more code lines, fewer comment
  lines, more active hotspots, more edges, fewer nodes, more unused dependencies, more
  critical, high or medium findings.
\<close>

theorem health_score_range_cap_monotone:
  "0 \<le> calculateHealthScore st hs g u sec \<and> calculateHealthScore st hs g u sec \<le> 100
   \<and> securityPenalty sec \<le> 30
   \<and> (countSeverity ''critical'' sec = 5 \<and> countSeverity ''high'' sec = 5 \<longrightarrow>
        securityPenalty sec = 30 \<and>
        calculateHealthScore st hs g u sec = calculateHealthScore st hs g u [] - 30)
   \<and> calculateHealthScore st hs g u (sec @ [v]) \<le> calculateHealthScore st hs g u sec
   \<and> (totalFiles st \<le> totalFiles st' \<and> totalLOC st \<le> totalLOC st'
        \<and> totalCodeLines st \<le> totalCodeLines st' \<and> totalCommentLines st' \<le> totalCommentLines st
        \<and> activeHotspots hs \<le> activeHotspots hs'
        \<and> length (links g) \<le> length (links g') \<and> length (nodes g') \<le> length (nodes g)
        \<and> u \<le> u'
        \<and> countSeverity ''critical'' sec \<le> countSeverity ''critical'' sec'
        \<and> countSeverity ''high'' sec \<le> countSeverity ''high'' sec'
        \<and> countSeverity ''medium'' sec \<le> countSeverity ''medium'' sec'
        \<longrightarrow> calculateHealthScore st' hs' g' u' sec' \<le> calculateHealthScore st hs g u sec)"
proof -
  have r: "0 \<le> calculateHealthScore st hs g u sec \<and> calculateHealthScore st hs g u sec \<le> 100"
    using deductions_range [of st hs g u sec] by (simp add: score_eq)
  have cap: "securityPenalty sec \<le> 30"
    by (simp add: securityPenalty_def Let_def)
  have five: "securityPenalty sec = 30 \<and>
        calculateHealthScore st hs g u sec = calculateHealthScore st hs g u [] - 30"
    if "countSeverity ''critical'' sec = 5" "countSeverity ''high'' sec = 5"
  proof -
    have "securityPoints sec = 30" using that by (simp add: securityPoints_def)
    moreover have "securityPoints [] = 0" by (simp add: securityPoints_def countSeverity_def)
    ultimately show ?thesis
      by (simp add: score_eq deductions_def securityPenalty_int)
  qed
  have app: "calculateHealthScore st hs g u (sec @ [v]) \<le> calculateHealthScore st hs g u sec"
  proof -
    have "deductions st hs g u sec \<le> deductions st hs g u (sec @ [v])"
      by (rule deductions_mono) (simp_all add: countSeverity_append)
    then show ?thesis by (simp add: score_eq)
  qed
  have mono: "calculateHealthScore st' hs' g' u' sec' \<le> calculateHealthScore st hs g u sec"
    if "totalFiles st \<le> totalFiles st'" "totalLOC st \<le> totalLOC st'"
    "totalCodeLines st \<le> totalCodeLines st'" "totalCommentLines st' \<le> totalCommentLines st"
    "activeHotspots hs \<le> activeHotspots hs'"
    "length (links g) \<le> length (links g')" "length (nodes g') \<le> length (nodes g)"
    "u \<le> u'"
    "countSeverity ''critical'' sec \<le> countSeverity ''critical'' sec'"
    "countSeverity ''high'' sec \<le> countSeverity ''high'' sec'"
    "countSeverity ''medium'' sec \<le> countSeverity ''medium'' sec'"
    using deductions_mono [OF that] by (simp add: score_eq)
  show ?thesis using r cap five app mono by blast
qed

text \<open>Concrete inputs for the examples.\<close>

definition finding :: "string \<Rightarrow> SecurityVulnerability" where
  "finding sev = \<lparr>name = ''eval() Usage'', severity = sev, description = '''',
     vsource = CodeScan, vfile = Some ''a.ts'', line = Some 1, category = Some ''Code Injection''\<rparr>"

definition cleanStats :: ProjectStats where
  "cleanStats = \<lparr>totalFiles = 12, totalLOC = 900, totalCodeLines = 600, totalCommentLines = 100, totalBlankLines = 200\<rparr>"

definition emptyGraph :: DependencyGraph where
  "emptyGraph = \<lparr>nodes = [], links = []\<rparr>"

lemma count_replicate: "countSeverity s (replicate n (finding t)) = (if s = t then n else 0)"
  by (induction n) (simp_all add: countSeverity_def finding_def)

theorem health_score_range_cap_monotone_witness:
  "calculateHealthScore cleanStats [] emptyGraph 0 (replicate 5 (finding ''critical'') @ replicate 5 (finding ''high'')) = 70
   \<and> calculateHealthScore cleanStats [] emptyGraph 0 [] = 100
   \<and> calculateHealthScore cleanStats [] emptyGraph 0 [finding ''medium'', finding ''critical'']
       \<le> calculateHealthScore cleanStats [] emptyGraph 0 [finding ''medium'']
   \<and> calculateHealthScore (cleanStats\<lparr>totalFiles := 201\<rparr>) [] emptyGraph 3 [finding ''high'']
       \<le> calculateHealthScore cleanStats [] emptyGraph 0 []"
proof -
  let ?sec = "replicate 5 (finding ''critical'') @ replicate 5 (finding ''high'')"
  have c0: "calculateHealthScore cleanStats [] emptyGraph 0 [] = 100"
    by (simp add: calculateHealthScore_def rawScore_def Let_def cleanStats_def emptyGraph_def
        activeHotspots_def couplingRatio_def securityPenalty_def countSeverity_def)
  have n: "countSeverity ''critical'' ?sec = 5 \<and> countSeverity ''high'' ?sec = 5"
    by (simp add: countSeverity_append count_replicate)
  have a: "calculateHealthScore cleanStats [] emptyGraph 0 ?sec = 70"
    using health_score_range_cap_monotone [of cleanStats "[]" emptyGraph 0 ?sec] n c0 by simp
  have b: "calculateHealthScore cleanStats [] emptyGraph 0 [finding ''medium'', finding ''critical'']
       \<le> calculateHealthScore cleanStats [] emptyGraph 0 [finding ''medium'']"
    using health_score_range_cap_monotone [of cleanStats "[]" emptyGraph 0 "[finding ''medium'']" "finding ''critical''"]
    by simp
  have c: "calculateHealthScore (cleanStats\<lparr>totalFiles := 201\<rparr>) [] emptyGraph 3 [finding ''high'']
       \<le> calculateHealthScore cleanStats [] emptyGraph 0 []"
    using health_score_range_cap_monotone [of cleanStats "[]" emptyGraph 0 "[]" _ "cleanStats\<lparr>totalFiles := 201\<rparr>" "[]" emptyGraph 3 "[finding ''high'']"]
    by (simp add: cleanStats_def countSeverity_def)
  show ?thesis using a b c c0 by simp
qed

text \<open>
  Claim C7. The coupling ratio is the number of edges divided by max(number of nodes, 1),
  and the score of a graph is the score of the same graph without edges minus 15 exactly
  when that ratio is strictly greater than 3: with 10 nodes, 30 edges deduct nothing and
  31 edges deduct 15.
\<close>

theorem coupling_penalty_iff:
  "couplingRatio g = real (length (links g)) / real (max (length (nodes g)) 1)
   \<and> calculateHealthScore st hs g u sec =
       calculateHealthScore st hs (g\<lparr>links := []\<rparr>) u sec
         - (if real (length (links g)) / real (max (length (nodes g)) 1) > 3 then 15 else 0)
   \<and> (length (nodes g) = 10 \<and> length (links g) = 30 \<longrightarrow>
        calculateHealthScore st hs g u sec = calculateHealthScore st hs (g\<lparr>links := []\<rparr>) u sec)
   \<and> (length (nodes g) = 10 \<and> length (links g) = 31 \<longrightarrow>
        calculateHealthScore st hs g u sec = calculateHealthScore st hs (g\<lparr>links := []\<rparr>) u sec - 15)"
proof -
  have ratio: "couplingRatio g = real (length (links g)) / real (max (length (nodes g)) 1)"
    by (cases "nodes g") (simp_all add: couplingRatio_def max_def)
  have zero: "couplingPenalty (g\<lparr>links := []\<rparr>) = 0"
    by (simp add: couplingPenalty_def)
  have pen: "couplingPenalty g = (if real (length (links g)) / real (max (length (nodes g)) 1) > 3 then 15 else 0)"
    using couplingRatio_gt3 [of g] ratio by (simp add: couplingPenalty_def)
  have eq: "calculateHealthScore st hs g u sec =
       calculateHealthScore st hs (g\<lparr>links := []\<rparr>) u sec
         - (if real (length (links g)) / real (max (length (nodes g)) 1) > 3 then 15 else 0)"
    unfolding score_eq deductions_def zero pen by simp
  have "length (nodes g) = 10 \<and> length (links g) = 30 \<longrightarrow>
        calculateHealthScore st hs g u sec = calculateHealthScore st hs (g\<lparr>links := []\<rparr>) u sec"
    using eq by simp
  moreover have "length (nodes g) = 10 \<and> length (links g) = 31 \<longrightarrow>
        calculateHealthScore st hs g u sec = calculateHealthScore st hs (g\<lparr>links := []\<rparr>) u sec - 15"
    using eq by simp
  ultimately show ?thesis using ratio eq by blast
qed

definition tenNodes :: "string list" where
  "tenNodes = [''a.ts'', ''b.ts'', ''c.ts'', ''d.ts'', ''e.ts'', ''f.ts'', ''g.ts'', ''h.ts'', ''i.ts'', ''j.ts'']"

definition someLink :: Link where
  "someLink = \<lparr>source = ''a.ts'', target = ''b.ts''\<rparr>"

theorem coupling_penalty_iff_witness:
  "calculateHealthScore cleanStats [] \<lparr>nodes = tenNodes, links = replicate 30 someLink\<rparr> 0 [] = 100
   \<and> calculateHealthScore cleanStats [] \<lparr>nodes = tenNodes, links = replicate 31 someLink\<rparr> 0 [] = 85"
proof -
  have c0: "calculateHealthScore cleanStats [] \<lparr>nodes = tenNodes, links = []\<rparr> 0 [] = 100"
    by (simp add: calculateHealthScore_def rawScore_def Let_def cleanStats_def tenNodes_def
        activeHotspots_def couplingRatio_def securityPenalty_def countSeverity_def)
  have a: "calculateHealthScore cleanStats [] \<lparr>nodes = tenNodes, links = replicate 30 someLink\<rparr> 0 [] = 100"
    using coupling_penalty_iff [of "\<lparr>nodes = tenNodes, links = replicate 30 someLink\<rparr>" cleanStats "[]" 0 "[]"] c0
    by (simp add: tenNodes_def)
  have b: "calculateHealthScore cleanStats [] \<lparr>nodes = tenNodes, links = replicate 31 someLink\<rparr> 0 [] = 85"
    using coupling_penalty_iff [of "\<lparr>nodes = tenNodes, links = replicate 31 someLink\<rparr>" cleanStats "[]" 0 "[]"] c0
    by (simp add: tenNodes_def)
  show ?thesis using a b by simp
qed

section \<open>Resolution of relative imports\<close>

lemma candidate_nonempty: "resolved \<noteq> [] \<Longrightarrow> candidate resolved ext \<noteq> []"
  by (simp add: candidate_def slashes_def)

lemma candidateAlt_nonempty: "resolved \<noteq> [] \<Longrightarrow> candidateAlt resolved ext \<noteq> []"
  by (simp add: candidateAlt_def Let_def slashes_def candidate_nonempty)

lemma probe_None:
  "find (\<lambda>f. f = c \<or> f = a) fs = None \<longleftrightarrow> c \<notin> set fs \<and> a \<notin> set fs"
  by (auto simp: find_None_iff)

lemma probe_Some_nonempty:
  assumes "resolved \<noteq> []"
    and "find (\<lambda>f. f = candidate resolved ext \<or> f = candidateAlt resolved ext) fs = Some m"
  shows "m \<noteq> []"
proof -
  from assms(2) have "m = candidate resolved ext \<or> m = candidateAlt resolved ext"
    by (auto simp: find_Some_iff)
  then show ?thesis
    using candidate_nonempty [OF assms(1), of ext] candidateAlt_nonempty [OF assms(1), of ext]
    by metis
qed

lemma tryExtensions_Some_iff:
  assumes ne: "resolved \<noteq> []"
  shows "tryExtensions fs resolved exts = Some m \<longleftrightarrow>
    (\<exists>i<length exts.
        find (\<lambda>f. f = candidate resolved (exts ! i) \<or> f = candidateAlt resolved (exts ! i)) fs = Some m
      \<and> (\<forall>j<i. candidate resolved (exts ! j) \<notin> set fs \<and> candidateAlt resolved (exts ! j) \<notin> set fs))"
proof (induction exts)
  case Nil
  show ?case by simp
next
  case (Cons e es)
  let ?probe = "\<lambda>x. find (\<lambda>f. f = candidate resolved x \<or> f = candidateAlt resolved x) fs"
  let ?miss = "\<lambda>x. candidate resolved x \<notin> set fs \<and> candidateAlt resolved x \<notin> set fs"
  let ?R = "\<lambda>xs. \<exists>i<length xs. ?probe (xs ! i) = Some m \<and> (\<forall>j<i. ?miss (xs ! j))"
  show ?case
  proof (cases "?probe e")
    case None
    then have miss: "?miss e" by (simp add: probe_None)
    have "tryExtensions fs resolved (e # es) = tryExtensions fs resolved es"
      using None by simp
    moreover have "?R (e # es) \<longleftrightarrow> ?R es"
    proof
      assume "?R (e # es)"
      then obtain i where i: "i < length (e # es)" "?probe ((e # es) ! i) = Some m"
        "\<forall>j<i. ?miss ((e # es) ! j)" by blast
      from i(2) None have "i \<noteq> 0" by (cases i) auto
      then obtain k where k: "i = Suc k" by (cases i) auto
      have "\<forall>j<k. ?miss (es ! j)"
      proof (intro allI impI)
        fix j assume "j < k"
        then have "Suc j < i" using k by simp
        with i(3) have "?miss ((e # es) ! Suc j)" by blast
        then show "?miss (es ! j)" by simp
      qed
      with i(1,2) k show "?R es" by auto
    next
      assume "?R es"
      then obtain k where k: "k < length es" "?probe (es ! k) = Some m" "\<forall>j<k. ?miss (es ! j)"
        by blast
      have "\<forall>j<Suc k. ?miss ((e # es) ! j)"
      proof (intro allI impI)
        fix j assume "j < Suc k"
        then show "?miss ((e # es) ! j)" using miss k(3) by (cases j) auto
      qed
      with k(1,2) show "?R (e # es)"
        by (intro exI [of _ "Suc k"]) simp
    qed
    ultimately show ?thesis using Cons.IH by simp
  next
    case (Some m')
    then have "m' \<noteq> []" using probe_Some_nonempty [OF ne] by blast
    then have t: "tryExtensions fs resolved (e # es) = Some m'" using Some by simp
    have hit: "\<not> ?miss e" using Some probe_None [of "candidate resolved e" "candidateAlt resolved e" fs] by auto
    have "?R (e # es) \<longleftrightarrow> m' = m"
    proof
      assume "?R (e # es)"
      then obtain i where i: "i < length (e # es)" "?probe ((e # es) ! i) = Some m"
        "\<forall>j<i. ?miss ((e # es) ! j)" by blast
      have "i = 0"
      proof (rule ccontr)
        assume "i \<noteq> 0"
        then have "0 < i" by simp
        with i(3) have "?miss ((e # es) ! 0)" by blast
        with hit show False by simp
      qed
      with i(2) Some show "m' = m" by simp
    next
      assume "m' = m"
      with Some show "?R (e # es)" by (intro exI [of _ 0]) simp
    qed
    with t show ?thesis by auto
  qed
qed

lemma tryExtensions_None_iff:
  assumes ne: "resolved \<noteq> []"
  shows "tryExtensions fs resolved exts = None \<longleftrightarrow>
    (\<forall>e \<in> set exts. candidate resolved e \<notin> set fs \<and> candidateAlt resolved e \<notin> set fs)"
proof (induction exts)
  case Nil
  show ?case by simp
next
  case (Cons e es)
  show ?case
  proof (cases "find (\<lambda>f. f = candidate resolved e \<or> f = candidateAlt resolved e) fs")
    case None
    then have "tryExtensions fs resolved (e # es) = tryExtensions fs resolved es" by simp
    moreover have "candidate resolved e \<notin> set fs \<and> candidateAlt resolved e \<notin> set fs"
      using None by (simp add: probe_None)
    ultimately show ?thesis using Cons.IH by simp
  next
    case (Some m')
    then have "m' \<noteq> []" using probe_Some_nonempty [OF ne] by blast
    moreover have "\<not> (candidate resolved e \<notin> set fs \<and> candidateAlt resolved e \<notin> set fs)"
      using Some probe_None [of "candidate resolved e" "candidateAlt resolved e" fs] by auto
    ultimately show ?thesis using Some by auto
  qed
qed

lemma path_join_nonempty: "path_join a b \<noteq> []"
  by (simp add: path_join_def path_normalize_def Let_def)

text \<open>
  Claim C2, amended. A relative specifier resolves to \<open>m\<close> exactly when, at the first
  extension of the fixed order for which the candidate or its \<^verbatim>\<open>.js\<close>-to-\<^verbatim>\<open>.ts\<close>
  variant is in the file list, \<open>m\<close> is the first file of the list (in enumeration order)
  that equals the candidate or the variant; it resolves to nothing exactly when no
  candidate and no variant of any extension is in the list. The candidate and its variant
  are tested in one pass over the file list, so between the two the enumeration order
  decides.
\<close>

theorem resolve_first_probe_step_wins:
  "(resolveImport fs file spec = Some m \<longleftrightarrow>
      (\<exists>i<length extensions.
          find (\<lambda>f. f = candidate (slashes (path_join (path_dirname file) spec)) (extensions ! i)
                    \<or> f = candidateAlt (slashes (path_join (path_dirname file) spec)) (extensions ! i)) fs
            = Some m
        \<and> (\<forall>j<i. candidate (slashes (path_join (path_dirname file) spec)) (extensions ! j) \<notin> set fs
                \<and> candidateAlt (slashes (path_join (path_dirname file) spec)) (extensions ! j) \<notin> set fs)))
   \<and> (resolveImport fs file spec = None \<longleftrightarrow>
      (\<forall>e \<in> set extensions.
          candidate (slashes (path_join (path_dirname file) spec)) e \<notin> set fs
        \<and> candidateAlt (slashes (path_join (path_dirname file) spec)) e \<notin> set fs))"
proof -
  have ne: "slashes (path_join (path_dirname file) spec) \<noteq> []"
    using path_join_nonempty by (simp add: slashes_def)
  show ?thesis
    unfolding resolveImport_def Let_def
    using tryExtensions_Some_iff [OF ne] tryExtensions_None_iff [OF ne] by blast
qed

lemma join_sibling_a: "slashes (path_join (path_dirname ''b.ts'') ''./a'') = ''a''"
  by code_simp

lemma join_sibling_a_js: "slashes (path_join (path_dirname ''b.ts'') ''./a.js'') = ''a.js''"
  by code_simp

text \<open>
  With files \<^verbatim>\<open>a.ts\<close> and \<^verbatim>\<open>a/index.ts\<close>, \<^verbatim>\<open>./a\<close> from the sibling \<^verbatim>\<open>b.ts\<close>
  resolves to \<^verbatim>\<open>a.ts\<close> in either enumeration order; with \<^verbatim>\<open>a.js\<close> enumerated before
  \<^verbatim>\<open>a.ts\<close>, \<^verbatim>\<open>./a.js\<close> resolves to \<^verbatim>\<open>a.js\<close>.
\<close>

theorem resolve_first_probe_step_wins_witness:
  "resolveImport [''a/index.ts'', ''a.ts'', ''b.ts''] ''b.ts'' ''./a'' = Some ''a.ts''
   \<and> resolveImport [''a.ts'', ''a/index.ts'', ''b.ts''] ''b.ts'' ''./a'' = Some ''a.ts''
   \<and> resolveImport [''a.js'', ''a.ts'', ''b.ts''] ''b.ts'' ''./a.js'' = Some ''a.js''"
proof -
  have 1: "resolveImport [''a/index.ts'', ''a.ts'', ''b.ts''] ''b.ts'' ''./a'' = Some ''a.ts''"
    apply (rule resolve_first_probe_step_wins [THEN conjunct1, THEN iffD2])
    apply (rule exI [of _ 1])
    apply (simp only: join_sibling_a)
    apply (simp add: extensions_def candidate_def candidateAlt_def slashes_def endsWith_def)
    done
  have 2: "resolveImport [''a.ts'', ''a/index.ts'', ''b.ts''] ''b.ts'' ''./a'' = Some ''a.ts''"
    apply (rule resolve_first_probe_step_wins [THEN conjunct1, THEN iffD2])
    apply (rule exI [of _ 1])
    apply (simp only: join_sibling_a)
    apply (simp add: extensions_def candidate_def candidateAlt_def slashes_def endsWith_def)
    done
  have 3: "resolveImport [''a.js'', ''a.ts'', ''b.ts''] ''b.ts'' ''./a.js'' = Some ''a.js''"
    apply (rule resolve_first_probe_step_wins [THEN conjunct1, THEN iffD2])
    apply (rule exI [of _ 0])
    apply (simp only: join_sibling_a_js)
    apply (simp add: extensions_def candidate_def candidateAlt_def slashes_def endsWith_def)
    done
  show ?thesis using 1 2 3 by simp
qed

text \<open>
  Claim C2 as stated fails: with \<^verbatim>\<open>a.ts\<close> enumerated before \<^verbatim>\<open>a.js\<close>, the specifier
  \<^verbatim>\<open>./a.js\<close> resolves to \<^verbatim>\<open>a.ts\<close>, not to the exact match.
\<close>

theorem exact_match_depends_on_file_order:
  "resolveImport [''a.ts'', ''a.js'', ''b.ts''] ''b.ts'' ''./a.js'' = Some ''a.ts''
   \<and> resolveImport [''a.ts'', ''a.js'', ''b.ts''] ''b.ts'' ''./a.js'' \<noteq> Some ''a.js''"
  by code_simp

section \<open>Graph truncation\<close>

text \<open>The invariant of claim C3 as a check on a graph.\<close>

definition edgesWithinNodes :: "DependencyGraph \<Rightarrow> bool" where
  "edgesWithinNodes g = list_all (\<lambda>l. source l \<in> set (nodes g) \<and> target l \<in> set (nodes g)) (links g)"

text \<open>
  A project of 1001 files: \<^verbatim>\<open>b.ts\<close>, then \<^verbatim>\<open>a0.ts\<close> to \<^verbatim>\<open>a998.ts\<close>, then
  \<^verbatim>\<open>z.ts\<close>; only \<^verbatim>\<open>b.ts\<close> has an import, \<^verbatim>\<open>./z\<close>.
\<close>

fun decimal :: "nat \<Rightarrow> string" where
  "decimal n = (if n < 10 then [char_of (48 + n)]
                else decimal (n div 10) @ [char_of (48 + n mod 10)])"

declare decimal.simps [simp del]

definition numbered :: "nat \<Rightarrow> string" where
  "numbered n = CHR ''a'' # decimal n @ ''.ts''"

definition bigFiles :: "string list" where
  "bigFiles = ''b.ts'' # map numbered [0..<999] @ [''z.ts'']"

definition bigImports :: "string \<Rightarrow> string list option" where
  "bigImports f = (if f = ''b.ts'' then Some [''./z''] else Some [])"

lemma find_member: "find P xs = Some x \<Longrightarrow> x \<in> set xs"
  by (induction xs) (auto split: if_splits)

lemma tryExtensions_member:
  "tryExtensions fs resolved exts = Some m \<Longrightarrow> m \<in> set fs"
proof (induction exts)
  case Nil
  then show ?case by simp
next
  case (Cons e es)
  show ?case
  proof (cases "find (\<lambda>f. f = candidate resolved e \<or> f = candidateAlt resolved e) fs")
    case None
    then show ?thesis using Cons by simp
  next
    case (Some m')
    then have "m' \<in> set fs" by (rule find_member)
    then show ?thesis using Some Cons by (auto split: if_splits)
  qed
qed

lemma in_concat_map: "l \<in> set (concat (map g xs)) \<Longrightarrow> \<exists>x \<in> set xs. l \<in> set (g x)"
  by (induction xs) auto

lemma fileLinks_endpoints:
  assumes "l \<in> set (fileLinks nf f imps)"
  shows "source l = slashes f \<and> target l \<in> set nf"
proof -
  from assms obtain i where i: "l \<in> set (if \<not> isRelativeImport i then []
        else (case resolveImport nf f i of None \<Rightarrow> []
              | Some match \<Rightarrow> [\<lparr>source = slashes f, target = match\<rparr>]))"
    unfolding fileLinks_def by (blast dest: in_concat_map)
  show ?thesis
  proof (cases "resolveImport nf f i")
    case None
    with i show ?thesis by (simp split: if_splits)
  next
    case (Some m)
    then have "m \<in> set nf"
      using tryExtensions_member by (simp add: resolveImport_def Let_def)
    with i Some show ?thesis by (simp split: if_splits)
  qed
qed

lemma discoverLinks_endpoints:
  assumes "l \<in> set (discoverLinks files readImports)"
  shows "source l \<in> set (map slashes files) \<and> target l \<in> set (map slashes files)"
proof -
  from assms obtain f where f: "f \<in> set files" "l \<in> set (case readImports f of None \<Rightarrow> []
        | Some imps \<Rightarrow> fileLinks (map slashes files) f imps)"
    unfolding discoverLinks_def by (blast dest: in_concat_map)
  show ?thesis
  proof (cases "readImports f")
    case None
    with f(2) show ?thesis by simp
  next
    case (Some imps)
    with f(2) have "l \<in> set (fileLinks (map slashes files) f imps)" by simp
    from fileLinks_endpoints [OF this] f(1) show ?thesis by simp
  qed
qed

text \<open>
  Claim C3, amended. The returned nodes are the first 1000 normalised file paths and the
  returned links the first 2000 discovered links, in discovery order. Every link's source
  and target is a normalised path of the full file list; when the file list has at most
  1000 entries, every link's source and target is in the returned node set.
\<close>

theorem graph_endpoints_and_truncation:
  "nodes (analyzeFileDependencies files readImports) = take 1000 (map slashes files)
   \<and> links (analyzeFileDependencies files readImports) = take 2000 (discoverLinks files readImports)
   \<and> (\<forall>l \<in> set (links (analyzeFileDependencies files readImports)).
         source l \<in> set (map slashes files) \<and> target l \<in> set (map slashes files))
   \<and> (length files \<le> 1000 \<longrightarrow>
        (\<forall>l \<in> set (links (analyzeFileDependencies files readImports)).
           source l \<in> set (nodes (analyzeFileDependencies files readImports))
         \<and> target l \<in> set (nodes (analyzeFileDependencies files readImports))))"
proof -
  let ?g = "analyzeFileDependencies files readImports"
  have n: "nodes ?g = take 1000 (map slashes files)"
    by (simp add: analyzeFileDependencies_def Let_def)
  have l: "links ?g = take 2000 (discoverLinks files readImports)"
    by (simp add: analyzeFileDependencies_def Let_def)
  have e: "source x \<in> set (map slashes files) \<and> target x \<in> set (map slashes files)"
    if "x \<in> set (links ?g)" for x
  proof -
    from that have "x \<in> set (discoverLinks files readImports)"
      unfolding l by (rule in_set_takeD)
    then show ?thesis by (rule discoverLinks_endpoints)
  qed
  have s: "nodes ?g = map slashes files" if "length files \<le> 1000"
    using that by (simp add: n)
  show ?thesis using n l e s by auto
qed

definition smallImports :: "string \<Rightarrow> string list option" where
  "smallImports f = (if f = ''b.ts'' then Some [''./a'', ''lodash''] else Some [])"

theorem graph_endpoints_and_truncation_witness:
  "links (analyzeFileDependencies [''a.ts'', ''b.ts''] smallImports) = [\<lparr>source = ''b.ts'', target = ''a.ts''\<rparr>]
   \<and> nodes (analyzeFileDependencies [''a.ts'', ''b.ts''] smallImports) = [''a.ts'', ''b.ts'']
   \<and> ''b.ts'' \<in> set (nodes (analyzeFileDependencies [''a.ts'', ''b.ts''] smallImports))
   \<and> ''a.ts'' \<in> set (nodes (analyzeFileDependencies [''a.ts'', ''b.ts''] smallImports))"
proof -
  let ?g = "analyzeFileDependencies [''a.ts'', ''b.ts''] smallImports"
  have l: "links ?g = [\<lparr>source = ''b.ts'', target = ''a.ts''\<rparr>]" by code_simp
  have len: "length [''a.ts'', ''b.ts''] \<le> 1000" by simp
  have m: "\<lparr>source = ''b.ts'', target = ''a.ts''\<rparr> \<in> set (links ?g)" by (simp add: l)
  from graph_endpoints_and_truncation [of "[''a.ts'', ''b.ts'']" smallImports] len m
  have "source \<lparr>source = ''b.ts'', target = ''a.ts''\<rparr> \<in> set (nodes ?g)
      \<and> target \<lparr>source = ''b.ts'', target = ''a.ts''\<rparr> \<in> set (nodes ?g)"
    by blast
  moreover have "nodes ?g = [''a.ts'', ''b.ts'']"
    using graph_endpoints_and_truncation [of "[''a.ts'', ''b.ts'']" smallImports]
    by (simp add: slashes_def)
  ultimately show ?thesis using l by simp
qed

lemma slashes_Cons: "slashes (c # cs) = (if c = CHR 0x5C then CHR ''/'' else c) # slashes cs"
  by (simp add: slashes_def)

lemma slashes_numbered_head: "\<exists>t. slashes (numbered n) = CHR ''a'' # t"
  by (simp add: numbered_def slashes_Cons)

lemma bigFiles_normalized:
  "map slashes bigFiles = ''b.ts'' # map (\<lambda>n. slashes (numbered n)) [0..<999] @ [''z.ts'']"
  by (simp add: bigFiles_def slashes_def)

lemma not_numbered:
  assumes "hd s \<noteq> CHR ''a''"
  shows "s \<notin> set (map (\<lambda>n. slashes (numbered n)) ns)"
proof
  assume "s \<in> set (map (\<lambda>n. slashes (numbered n)) ns)"
  then obtain n where "s = slashes (numbered n)" by auto
  moreover obtain t where "slashes (numbered n) = CHR ''a'' # t"
    using slashes_numbered_head by blast
  ultimately have "hd s = CHR ''a''" by simp
  with assms show False by simp
qed

lemma z_missing: "''z'' \<notin> set (map slashes bigFiles)"
  unfolding bigFiles_normalized using not_numbered [of "''z''" "[0..<999]"] by simp

lemma z_ts_present: "''z.ts'' \<in> set (map slashes bigFiles)"
  unfolding bigFiles_normalized by simp

lemma join_sibling_z: "slashes (path_join (path_dirname ''b.ts'') ''./z'') = ''z''"
  by code_simp

lemma probe_same: "c \<in> set fs \<Longrightarrow> find (\<lambda>f. f = c) fs = Some c"
  by (induction fs) auto

lemma probe_absent: "c \<notin> set fs \<Longrightarrow> find (\<lambda>f. f = c) fs = None"
  by (induction fs) auto

lemma big_resolve: "resolveImport (map slashes bigFiles) ''b.ts'' ''./z'' = Some ''z.ts''"
proof -
  have c0: "candidate ''z'' '''' = ''z''" "candidateAlt ''z'' '''' = ''z''"
    "candidate ''z'' ''.ts'' = ''z.ts''" "candidateAlt ''z'' ''.ts'' = ''z.ts''"
    by code_simp+
  have p0: "find (\<lambda>f. f = ''z'') (map slashes bigFiles) = None"
    using z_missing by (rule probe_absent)
  have p1: "find (\<lambda>f. f = ''z.ts'') (map slashes bigFiles) = Some ''z.ts''"
    using z_ts_present by (rule probe_same)
  show ?thesis
    unfolding resolveImport_def Let_def join_sibling_z extensions_def
    by (simp add: c0 p0 p1 del: map_map)
qed

lemma discoverLinks_first:
  "readImports f = Some imps \<Longrightarrow>
   \<exists>rest. discoverLinks (f # fs) readImports = fileLinks (map slashes (f # fs)) f imps @ rest"
  by (simp add: discoverLinks_def)

lemma big_first_link:
  "\<exists>rest. discoverLinks bigFiles bigImports = \<lparr>source = ''b.ts'', target = ''z.ts''\<rparr> # rest"
proof -
  have rel: "isRelativeImport ''./z''" by code_simp
  have sl: "slashes ''b.ts'' = ''b.ts''" by code_simp
  have fl: "fileLinks (map slashes bigFiles) ''b.ts'' [''./z''] = [\<lparr>source = ''b.ts'', target = ''z.ts''\<rparr>]"
    by (simp add: fileLinks_def rel big_resolve sl del: map_map)
  have imp: "bigImports ''b.ts'' = Some [''./z'']" by (simp add: bigImports_def)
  have bf: "bigFiles = ''b.ts'' # (map numbered [0..<999] @ [''z.ts''])" by (simp add: bigFiles_def)
  from discoverLinks_first [of bigImports "''b.ts''" "[''./z'']" "map numbered [0..<999] @ [''z.ts'']"] imp
  obtain rest where "discoverLinks bigFiles bigImports = fileLinks (map slashes bigFiles) ''b.ts'' [''./z''] @ rest"
    unfolding bf [symmetric] by blast
  then show ?thesis by (simp add: fl)
qed

text \<open>
  Claim C3 as stated fails once the node cap truncates: in the project of 1001 files the
  link from \<^verbatim>\<open>b.ts\<close> to \<^verbatim>\<open>z.ts\<close> is returned, and \<^verbatim>\<open>z.ts\<close>, the 1001st file, is
  not among the returned nodes.
\<close>

theorem truncated_graph_has_dangling_edge:
  "length bigFiles = 1001
   \<and> \<lparr>source = ''b.ts'', target = ''z.ts''\<rparr> \<in> set (links (analyzeFileDependencies bigFiles bigImports))
   \<and> ''z.ts'' \<notin> set (nodes (analyzeFileDependencies bigFiles bigImports))
   \<and> \<not> edgesWithinNodes (analyzeFileDependencies bigFiles bigImports)"
proof -
  let ?g = "analyzeFileDependencies bigFiles bigImports"
  let ?l = "\<lparr>source = ''b.ts'', target = ''z.ts''\<rparr>"
  have len: "length bigFiles = 1001" by (simp add: bigFiles_def)
  from big_first_link obtain rest where r: "discoverLinks bigFiles bigImports = ?l # rest" by blast
  have l: "?l \<in> set (links ?g)"
    by (simp add: analyzeFileDependencies_def Let_def r)
  have "take 1000 (map slashes bigFiles) = ''b.ts'' # map (\<lambda>n. slashes (numbered n)) [0..<999]"
    unfolding bigFiles_normalized by simp
  then have n: "''z.ts'' \<notin> set (nodes ?g)"
    using not_numbered [of "''z.ts''" "[0..<999]"] by (simp add: analyzeFileDependencies_def Let_def)
  have "\<not> edgesWithinNodes ?g"
    using l n unfolding edgesWithinNodes_def list_all_iff by force
  then show ?thesis using len l n by simp
qed

section \<open>Used and unused packages\<close>













text \<open>
  A manifest declaring \<^verbatim>\<open>eslint\<close> and \<^verbatim>\<open>left-pad\<close> in both sections, and a project
  that imports only \<^verbatim>\<open>lodash/merge\<close> and \<^verbatim>\<open>node:path\<close>.
\<close>

definition exampleManifest :: PackageJson where
  "exampleManifest = \<lparr>
     pkg_dependencies = Some [(''eslint'', JString ''^8.0.0''), (''left-pad'', JString ''1.3.0''),
                              (''lodash'', JString ''^4.17.21'')],
     pkg_devDependencies = Some [(''eslint'', JString ''^8.0.0''), (''@types/node'', JString ''^20.0.0''),
                                 (''left-pad'', JString ''1.3.0'')]\<rparr>"

definition exampleImports :: "string \<Rightarrow> string list option" where
  "exampleImports f = (if f = ''src/main.ts'' then Some [''./util'', ''lodash/merge'', ''node:path'']
                       else if f = ''src/util.ts'' then Some []
                       else None)"

lemma example_result:
  "used (analyzePackageDeps (ManifestParsed exampleManifest) [''src/main.ts'', ''src/util.ts''] exampleImports) = [''lodash'']
 \<and> unused (analyzePackageDeps (ManifestParsed exampleManifest) [''src/main.ts'', ''src/util.ts''] exampleImports) = [''left-pad'']
 \<and> map o_name (outdated (analyzePackageDeps (ManifestParsed exampleManifest) [''src/main.ts'', ''src/util.ts''] exampleImports)) = [''left-pad'']"
  by code_simp








section \<open>The secret scan, line by line\<close>

lemma firstSecret_find:
  "firstSecret ps rel i l =
     (case find (\<lambda>s. rxTest (s_pattern s) l) ps of
        None \<Rightarrow> []
      | Some s \<Rightarrow> [secretFinding s rel i])"
  by (induction ps) simp_all

lemma firstSecret_line: "v \<in> set (firstSecret ps rel i l) \<Longrightarrow> line v = Some (Suc i)"
  by (induction ps) (auto simp: secretFinding_def split: if_splits)

lemma filter_firstSecret:
  "filter (\<lambda>v. line v = Some (Suc j)) (firstSecret ps rel i l) =
     (if i = j then firstSecret ps rel i l else [])"
proof (cases "i = j")
  case True
  then show ?thesis using firstSecret_line [of _ ps rel i l] by (simp add: filter_id_conv)
next
  case False
  then have "\<forall>v \<in> set (firstSecret ps rel i l). line v \<noteq> Some (Suc j)"
    using firstSecret_line [of _ ps rel i l] by auto
  then show ?thesis using False by (simp add: filter_empty_conv)
qed

lemma filter_secretLoop:
  "filter (\<lambda>v. line v = Some (Suc j)) (secretLoop rel k ls) =
     (if k \<le> j \<and> j - k < length ls \<and> \<not> isCommentLine (ls ! (j - k))
      then firstSecret SECRET_PATTERNS rel j (ls ! (j - k)) else [])"
proof (induction ls arbitrary: k)
  case Nil
  show ?case by simp
next
  case (Cons l ls)
  show ?case
  proof (cases "k = j")
    case True
    then show ?thesis by (simp add: Cons.IH filter_firstSecret)
  next
    case False
    show ?thesis
    proof (cases "k < j")
      case True
      then have "j - k = Suc (j - Suc k)" by simp
      then show ?thesis using True False by (simp add: Cons.IH filter_firstSecret)
    next
      case False
      with \<open>k \<noteq> j\<close> show ?thesis by (simp add: Cons.IH filter_firstSecret)
    qed
  qed
qed

lemma secretLoop_lines:
  "v \<in> set (secretLoop rel k ls) \<Longrightarrow>
     \<exists>i < length ls. line v = Some (Suc (k + i)) \<and> \<not> isCommentLine (ls ! i)"
proof (induction ls arbitrary: k)
  case Nil
  then show ?case by simp
next
  case (Cons l ls)
  from Cons.prems consider
      (here) "\<not> isCommentLine l" "v \<in> set (firstSecret SECRET_PATTERNS rel k l)"
    | (later) "v \<in> set (secretLoop rel (Suc k) ls)"
    by (auto split: if_splits)
  then show ?case
  proof cases
    case here
    then have "line v = Some (Suc (k + 0))" using firstSecret_line by simp
    with here(1) show ?thesis by (intro exI [of _ 0]) simp
  next
    case later
    from Cons.IH [OF later] obtain i where "i < length ls"
      "line v = Some (Suc (Suc k + i))" "\<not> isCommentLine (ls ! i)" by blast
    then show ?thesis by (intro exI [of _ "Suc i"]) simp
  qed
qed

text \<open>
  Claim C5. For every file content, a string of UTF-16 code units split at line feeds, and
  every line index \<open>i\<close>, the secret findings reported
  for line \<open>i + 1\<close> are: none when the trimmed line starts with \<^verbatim>\<open>//\<close>, \<^verbatim>\<open>*\<close> or
  \<^verbatim>\<open>/*\<close>, whatever it matches; otherwise the single finding of the first of the five
  patterns, in their fixed order, that matches the line, and none when no pattern matches.
  So a line never has more than one secret finding, and every secret finding belongs to a
  line that is not a comment.
\<close>

theorem secret_scan_one_finding_per_live_line:
  "filter (\<lambda>v. line v = Some (Suc i)) (secretScan relativePath content) =
     (if i < length (splitOn 10 content) \<and> \<not> isCommentLine (splitOn 10 content ! i)
      then (case find (\<lambda>s. rxTest (s_pattern s) (splitOn 10 content ! i)) SECRET_PATTERNS of
              None \<Rightarrow> []
            | Some s \<Rightarrow> [secretFinding s relativePath i])
      else [])
   \<and> length (filter (\<lambda>v. line v = Some (Suc i)) (secretScan relativePath content)) \<le> 1
   \<and> (\<forall>v \<in> set (secretScan relativePath content).
        \<exists>k < length (splitOn 10 content).
          line v = Some (Suc k) \<and> \<not> isCommentLine (splitOn 10 content ! k))
   \<and> length SECRET_PATTERNS = 5"
proof -
  let ?ls = "splitOn 10 content"
  have a: "filter (\<lambda>v. line v = Some (Suc i)) (secretScan relativePath content) =
     (if i < length ?ls \<and> \<not> isCommentLine (?ls ! i)
      then (case find (\<lambda>s. rxTest (s_pattern s) (?ls ! i)) SECRET_PATTERNS of
              None \<Rightarrow> []
            | Some s \<Rightarrow> [secretFinding s relativePath i])
      else [])"
    unfolding secretScan_def filter_secretLoop firstSecret_find by simp
  have b: "length (filter (\<lambda>v. line v = Some (Suc i)) (secretScan relativePath content)) \<le> 1"
    unfolding a by (simp split: option.splits)
  have c: "\<forall>v \<in> set (secretScan relativePath content).
        \<exists>k < length ?ls. line v = Some (Suc k) \<and> \<not> isCommentLine (?ls ! k)"
    unfolding secretScan_def using secretLoop_lines [of _ relativePath 0 ?ls] by simp
  have d: "length SECRET_PATTERNS = 5" by (simp add: SECRET_PATTERNS_def)
  show ?thesis using a b c d by blast
qed

text \<open>
  A commented-out secret on the first line, after a byte order mark and a no-break space,
  and the same text live on the second line.
\<close>

definition secretLine :: "codeunit list" where
  "secretLine = units (''password: '' @ [CHR 0x22] @ ''supersecret123'' @ [CHR 0x22])"

definition commentedLine :: "codeunit list" where
  "commentedLine = [65279, 160] @ units ''// '' @ secretLine"

definition twoLines :: "codeunit list" where
  "twoLines = commentedLine @ [10] @ secretLine"

lemma twoLines_split: "splitOn 10 twoLines = [commentedLine, secretLine]"
  by code_simp

lemma twoLines_comment: "isCommentLine commentedLine" "\<not> isCommentLine secretLine"
  by code_simp+

lemma commented_line_matches: "rxTest (s_pattern (SECRET_PATTERNS ! 1)) commentedLine"
  by code_simp

lemma secretLine_tests:
  "\<not> rxTest (s_pattern (SECRET_PATTERNS ! 0)) secretLine"
  "rxTest (s_pattern (SECRET_PATTERNS ! 1)) secretLine"
  by code_simp+

lemma find_second: "\<not> P a \<Longrightarrow> P b \<Longrightarrow> find P (a # b # r) = Some b"
  by simp

lemma secretLine_first_match:
  "find (\<lambda>s. rxTest (s_pattern s) secretLine) SECRET_PATTERNS = Some (SECRET_PATTERNS ! 1)"
proof -
  obtain r where r: "SECRET_PATTERNS = (SECRET_PATTERNS ! 0) # (SECRET_PATTERNS ! 1) # r"
    by (simp add: SECRET_PATTERNS_def)
  have "find (\<lambda>s. rxTest (s_pattern s) secretLine) ((SECRET_PATTERNS ! 0) # (SECRET_PATTERNS ! 1) # r)
        = Some (SECRET_PATTERNS ! 1)"
    using secretLine_tests by (rule find_second)
  with r show ?thesis by simp
qed

theorem secret_scan_one_finding_per_live_line_witness:
  "filter (\<lambda>v. line v = Some (Suc 0)) (secretScan ''a.ts'' twoLines) = []
   \<and> filter (\<lambda>v. line v = Some (Suc 1)) (secretScan ''a.ts'' twoLines)
       = [secretFinding (SECRET_PATTERNS ! 1) ''a.ts'' 1]
   \<and> rxTest (s_pattern (SECRET_PATTERNS ! 1)) commentedLine"
proof -
  have 0: "filter (\<lambda>v. line v = Some (Suc 0)) (secretScan ''a.ts'' twoLines) = []"
    using secret_scan_one_finding_per_live_line [of 0 "''a.ts''" twoLines]
    by (simp add: twoLines_split twoLines_comment)
  have 1: "filter (\<lambda>v. line v = Some (Suc 1)) (secretScan ''a.ts'' twoLines)
       = [secretFinding (SECRET_PATTERNS ! 1) ''a.ts'' 1]"
    using secret_scan_one_finding_per_live_line [of 1 "''a.ts''" twoLines]
    by (simp add: twoLines_split twoLines_comment secretLine_first_match)
  show ?thesis using 0 1 commented_line_matches by simp
qed

section \<open>Which files are scanned\<close>

lemma visit_vfile: "v \<in> set (visit rel n) \<Longrightarrow> vfile v = Some rel"
  by (cases n) (auto simp: visit_def findingOfNamed_def codeFinding_def split: option.splits if_splits)

lemma traverse_vfile: "v \<in> set (traverse rel n) \<Longrightarrow> vfile v = Some rel"
  by (induction rel n rule: traverse.induct) (auto dest: visit_vfile)

lemma firstSecret_vfile: "v \<in> set (firstSecret ps rel i l) \<Longrightarrow> vfile v = Some rel"
  by (induction ps) (auto simp: secretFinding_def split: if_splits)

lemma secretLoop_vfile: "v \<in> set (secretLoop rel k ls) \<Longrightarrow> vfile v = Some rel"
  by (induction ls arbitrary: k) (auto dest: firstSecret_vfile split: if_splits)

lemma scanFile_vfile:
  "v \<in> set (scanFileForVulnerabilities parse filePath content rel) \<Longrightarrow> vfile v = Some rel"
  by (auto simp: scanFileForVulnerabilities_def secretScan_def
      dest: traverse_vfile secretLoop_vfile split: if_splits option.splits)

lemma scanProjectFile_vfile:
  assumes "v \<in> set (scanProjectFile projectPath readFile parse f)"
  shows "path_extname f \<in> set jsExtensions \<and> vfile v = Some (slashes f)"
proof (cases "path_extname f \<in> set jsExtensions")
  case False
  with assms show ?thesis by (simp add: scanProjectFile_def)
next
  case True
  show ?thesis
  proof (cases "readFile f")
    case None
    with assms True show ?thesis by (simp add: scanProjectFile_def)
  next
    case (Some content)
    with assms True
    have "v \<in> set (scanFileForVulnerabilities parse (path_join projectPath f) content (slashes f))"
      by (simp add: scanProjectFile_def)
    then show ?thesis using True scanFile_vfile by blast
  qed
qed

lemma set_analyzeSecurity:
  "set (analyzeSecurity J a b e projectPath files readFile parse) =
     set (runNpmAudit J a b e) \<union> (\<Union>f \<in> set files. set (scanProjectFile projectPath readFile parse f))"
  by (simp add: analyzeSecurity_def Let_def)

text \<open>
  Claim C4, amended. The secret scan runs on the enumerated files whose extension is
  \<^verbatim>\<open>.js\<close>, \<^verbatim>\<open>.jsx\<close>, \<^verbatim>\<open>.ts\<close> or \<^verbatim>\<open>.tsx\<close>, whether or not the file parses: for
  such a file that can be read, every finding of the line scan is among the results, for
  every parser outcome. A file with any other extension contributes nothing, and every
  finding of the result is an audit finding or carries the path of an enumerated file with
  one of the four extensions.
\<close>

theorem secret_scan_limited_to_js_ts_files:
  "(path_extname projectFile \<notin> set jsExtensions \<longrightarrow> scanProjectFile projectPath readFile parse projectFile = [])
   \<and> (path_extname filePath \<notin> set jsExtensions \<longrightarrow>
        scanFileForVulnerabilities parse filePath content rel = [])
   \<and> (path_extname filePath \<in> set jsExtensions \<longrightarrow>
        (\<exists>structural. scanFileForVulnerabilities parse filePath content rel
                         = structural @ secretScan rel content))
   \<and> (projectFile \<in> set files \<and> path_extname projectFile \<in> set jsExtensions
        \<and> path_extname (path_join projectPath projectFile) \<in> set jsExtensions
        \<and> readFile projectFile = Some content
      \<longrightarrow> set (secretScan (slashes projectFile) content)
            \<subseteq> set (analyzeSecurity J a b e projectPath files readFile parse))
   \<and> (v \<in> set (analyzeSecurity J a b e projectPath files readFile parse) \<longrightarrow>
        v \<in> set (runNpmAudit J a b e)
        \<or> (\<exists>f \<in> set files. path_extname f \<in> set jsExtensions \<and> vfile v = Some (slashes f)))"
proof -
  have 1: "path_extname projectFile \<notin> set jsExtensions \<longrightarrow> scanProjectFile projectPath readFile parse projectFile = []"
    by (simp add: scanProjectFile_def)
  have 2: "path_extname filePath \<notin> set jsExtensions \<longrightarrow>
        scanFileForVulnerabilities parse filePath content rel = []"
    by (simp add: scanFileForVulnerabilities_def)
  have 3: "path_extname filePath \<in> set jsExtensions \<longrightarrow>
        (\<exists>structural. scanFileForVulnerabilities parse filePath content rel
                         = structural @ secretScan rel content)"
    by (simp add: scanFileForVulnerabilities_def)
  have 4: "set (secretScan (slashes projectFile) content)
            \<subseteq> set (analyzeSecurity J a b e projectPath files readFile parse)"
    if "projectFile \<in> set files" "path_extname projectFile \<in> set jsExtensions"
       "path_extname (path_join projectPath projectFile) \<in> set jsExtensions" "readFile projectFile = Some content"
  proof -
    have "set (secretScan (slashes projectFile) content)
          \<subseteq> set (scanProjectFile projectPath readFile parse projectFile)"
      using that by (simp add: scanProjectFile_def scanFileForVulnerabilities_def)
    then show ?thesis unfolding set_analyzeSecurity using that(1) by blast
  qed
  have 5: "v \<in> set (runNpmAudit J a b e)
        \<or> (\<exists>f \<in> set files. path_extname f \<in> set jsExtensions \<and> vfile v = Some (slashes f))"
    if "v \<in> set (analyzeSecurity J a b e projectPath files readFile parse)"
    using that unfolding set_analyzeSecurity by (auto dest: scanProjectFile_vfile)
  show ?thesis using 1 2 3 4 5 by blast
qed

text \<open>
  A project whose files all hold the one secret-like line, no audit (no lock file), and a
  parser that rejects every file.
\<close>

definition sameContent :: "string \<Rightarrow> codeunit list option" where
  "sameContent f = Some secretLine"

definition unparsable :: "codeunit list \<Rightarrow> Node option" where
  "unparsable content = None"

definition noAuditOutput :: "string \<Rightarrow> AuditResult option" where
  "noAuditOutput out = None"

lemma config_extnames:
  "path_extname ''config.ts'' \<in> set jsExtensions"
  "path_extname (path_join ''/proj'' ''config.ts'') \<in> set jsExtensions"
  "path_extname ''config.yaml'' \<notin> set jsExtensions"
  by code_simp+

lemma secretLine_scan: "secretScan ''config.ts'' secretLine = [secretFinding (SECRET_PATTERNS ! 1) ''config.ts'' 0]"
  by code_simp

theorem secret_scan_limited_to_js_ts_files_witness:
  "secretFinding (SECRET_PATTERNS ! 1) ''config.ts'' 0
     \<in> set (analyzeSecurity noAuditOutput True False (ExecFailed None) ''/proj''
              [''config.yaml'', ''config.ts''] sameContent unparsable)
   \<and> scanProjectFile ''/proj'' sameContent unparsable ''config.yaml'' = []"
proof -
  have sl: "slashes ''config.ts'' = ''config.ts''" by code_simp
  have m: "''config.ts'' \<in> set [''config.yaml'', ''config.ts'']" by simp
  have r: "sameContent ''config.ts'' = Some secretLine" by (simp add: sameContent_def)
  note T = secret_scan_limited_to_js_ts_files [where projectFile = "''config.ts''" and projectPath = "''/proj''"
      and readFile = sameContent and parse = unparsable and content = secretLine
      and files = "[''config.yaml'', ''config.ts'']" and J = noAuditOutput and a = True and b = False
      and e = "ExecFailed None"]
  note U = secret_scan_limited_to_js_ts_files [where projectFile = "''config.yaml''" and projectPath = "''/proj''"
      and readFile = sameContent and parse = unparsable]
  have "''config.ts'' \<in> set [''config.yaml'', ''config.ts''] \<and> path_extname ''config.ts'' \<in> set jsExtensions
        \<and> path_extname (path_join ''/proj'' ''config.ts'') \<in> set jsExtensions
        \<and> sameContent ''config.ts'' = Some secretLine"
    using m r config_extnames(1,2) by blast
  with T have "set (secretScan (slashes ''config.ts'') secretLine)
      \<subseteq> set (analyzeSecurity noAuditOutput True False (ExecFailed None) ''/proj''
              [''config.yaml'', ''config.ts''] sameContent unparsable)"
    by blast
  then have a: "secretFinding (SECRET_PATTERNS ! 1) ''config.ts'' 0
     \<in> set (analyzeSecurity noAuditOutput True False (ExecFailed None) ''/proj''
              [''config.yaml'', ''config.ts''] sameContent unparsable)"
    unfolding sl secretLine_scan by simp
  from U config_extnames(3) have b: "scanProjectFile ''/proj'' sameContent unparsable ''config.yaml'' = []"
    by blast
  show ?thesis using a b by simp
qed

lemma yaml_secret_like: "secretScan ''config.yaml'' secretLine \<noteq> []"
  by code_simp

text \<open>
  Claim C4 as stated fails: the secret-like line, which the line scan would report, is in
  the project file \<^verbatim>\<open>config.yaml\<close>, and the result has no finding.
\<close>

theorem secret_in_yaml_file_not_reported:
  "secretScan ''config.yaml'' secretLine \<noteq> []
   \<and> sameContent ''config.yaml'' = Some secretLine
   \<and> analyzeSecurity noAuditOutput True False (ExecFailed None) ''/proj''
        [''config.yaml''] sameContent unparsable = []"
proof -
  have "scanProjectFile ''/proj'' sameContent unparsable ''config.yaml'' = []"
    using config_extnames(3) by (simp add: scanProjectFile_def)
  then have "analyzeSecurity noAuditOutput True False (ExecFailed None) ''/proj''
        [''config.yaml''] sameContent unparsable = []"
    by (simp add: analyzeSecurity_def Let_def runNpmAudit_def)
  then show ?thesis using yaml_secret_like by (simp add: sameContent_def)
qed

section \<open>Severities, defaults and the constructor call\<close>

text \<open>The four severities of \<^verbatim>\<open>types.ts\<close>.\<close>

definition validSeverity :: "string \<Rightarrow> bool" where
  "validSeverity s = (s \<in> set [''low'', ''medium'', ''high'', ''critical''])"

lemma modernFinding_valid: "validSeverity (severity (modernFinding entry))"
  by (simp add: modernFinding_def Let_def validSeverity_def)

lemma visit_valid: "v \<in> set (visit rel n) \<Longrightarrow> validSeverity (severity v)"
  by (cases n)
    (auto simp: visit_def findingOfNamed_def codeFinding_def DANGEROUS_PATTERNS_def validSeverity_def
      split: if_splits)

lemma traverse_valid: "v \<in> set (traverse rel n) \<Longrightarrow> validSeverity (severity v)"
  by (induction rel n rule: traverse.induct) (auto dest: visit_valid)

lemma firstSecret_valid:
  "\<forall>s \<in> set ps. validSeverity (s_severity s) \<Longrightarrow> v \<in> set (firstSecret ps rel i l) \<Longrightarrow>
   validSeverity (severity v)"
  by (induction ps) (auto simp: secretFinding_def split: if_splits)

lemma secret_patterns_valid: "\<forall>s \<in> set SECRET_PATTERNS. validSeverity (s_severity s)"
  by (simp add: SECRET_PATTERNS_def validSeverity_def)

lemma secretLoop_valid: "v \<in> set (secretLoop rel k ls) \<Longrightarrow> validSeverity (severity v)"
  by (induction ls arbitrary: k)
    (auto dest: firstSecret_valid [OF secret_patterns_valid] split: if_splits)

lemma severities_valid_outside_legacy_path:
  "(\<forall>v \<in> set (scanFileForVulnerabilities parse filePath content rel). validSeverity (severity v))
   \<and> (\<forall>v \<in> set (map modernFinding vs). validSeverity (severity v))
   \<and> (\<forall>v \<in> set (runNpmAudit J a b (ExecFailed out)). validSeverity (severity v))"
proof -
  have 1: "\<forall>v \<in> set (scanFileForVulnerabilities parse filePath content rel). validSeverity (severity v)"
    by (auto simp: scanFileForVulnerabilities_def secretScan_def
        dest: traverse_valid secretLoop_valid split: if_splits option.splits)
  have 2: "\<forall>v \<in> set (map modernFinding vs). validSeverity (severity v)"
    using modernFinding_valid by auto
  have 3: "\<forall>v \<in> set (runNpmAudit J a b (ExecFailed out)). validSeverity (severity v)"
    using modernFinding_valid by (auto simp: runNpmAudit_def split: option.splits if_splits)
  show ?thesis using 1 2 3 by blast
qed

text \<open>
  An audit report in the legacy format with one advisory of severity \<^verbatim>\<open>moderate\<close>, the
  name npm gives its middle level, printed by a run that exits with 0.
\<close>

definition legacyReport :: "string \<Rightarrow> AuditResult option" where
  "legacyReport out =
     Some \<lparr>vulnerabilities = None,
           advisories = Some [\<lparr>adv_module_name = ''lodash'', adv_title = ''Prototype Pollution'',
                                adv_severity = ''moderate'',
                                adv_overview = Some ''Versions before 4.17.12 are vulnerable.''\<rparr>]\<rparr>"

text \<open>
  Claim C8 at that input: the legacy path copies the severity unchecked, so the finding
  carries \<^verbatim>\<open>moderate\<close>, which is none of the four severities; the same severity in
  the modern format is normalised to \<^verbatim>\<open>low\<close>.
\<close>

theorem legacy_advisory_severity_unchecked:
  "map severity (runNpmAudit legacyReport True True (ExecOk ''legacy report'')) = [''moderate'']
   \<and> \<not> validSeverity ''moderate''
   \<and> severity (modernFinding (''lodash'', \<lparr>av_severity = ''moderate'', av_range = Some ''<4.17.12'',
                                              av_via = ViaArray []\<rparr>)) = ''low''"
  by (simp add: runNpmAudit_def legacyReport_def legacyFinding_def validSeverity_def
      modernFinding_def Let_def)

theorem legacy_advisory_severity_unchecked_witness:
  "\<not> list_all validSeverity
       (map severity (runNpmAudit legacyReport True True (ExecOk ''legacy report'')))"
  using legacy_advisory_severity_unchecked by simp

text \<open>
  Claim C9. Without a manifest, or with one that cannot be read or parsed, the package
  usage classifier returns its default result, whose two maps and four lists are empty.
  The audit returns no finding when the manifest or the lock file is missing, when the
  audit command fails without output or with empty output, when its output does not
  parse (after a failure or after success), and when a failed run's output parses but has
  no \<^verbatim>\<open>vulnerabilities\<close>. Both functions return a value for every input.
\<close>

theorem collaborators_unavailable_give_defaults:
  "analyzePackageDeps ManifestAbsent files readImports = defaultResult
   \<and> analyzePackageDeps ManifestUnreadable files readImports = defaultResult
   \<and> defaultResult = \<lparr>dependencies = [], devDependencies = [], used = [], unused = [],
                        outdated = [], suggestions = []\<rparr>
   \<and> (\<not> pkgJsonExists \<or> \<not> lockExists \<longrightarrow> runNpmAudit J pkgJsonExists lockExists e = [])
   \<and> runNpmAudit J pkgJsonExists lockExists (ExecFailed None) = []
   \<and> runNpmAudit J pkgJsonExists lockExists (ExecFailed (Some [])) = []
   \<and> (J out = None \<longrightarrow> runNpmAudit J pkgJsonExists lockExists (ExecFailed (Some out)) = []
                         \<and> runNpmAudit J pkgJsonExists lockExists (ExecOk out) = [])
   \<and> (J out = Some r \<and> vulnerabilities r = None \<longrightarrow>
        runNpmAudit J pkgJsonExists lockExists (ExecFailed (Some out)) = [])"
  by (simp add: analyzePackageDeps_def defaultResult_def runNpmAudit_def)

definition notJson :: "string \<Rightarrow> AuditResult option" where
  "notJson out = None"

definition lodashImports :: "string \<Rightarrow> string list option" where
  "lodashImports f = Some [''lodash'']"

theorem collaborators_unavailable_give_defaults_witness:
  "runNpmAudit notJson True False (ExecOk ''{}'') = []
   \<and> runNpmAudit notJson True True (ExecFailed (Some ''sh: 1: npm: not found'')) = []
   \<and> runNpmAudit notJson True True (ExecOk ''sh: 1: npm: not found'') = []
   \<and> used (analyzePackageDeps ManifestAbsent [''a.ts''] lodashImports) = []"
proof -
  have n: "notJson ''sh: 1: npm: not found'' = None" by (simp add: notJson_def)
  have 1: "runNpmAudit notJson True False (ExecOk ''{}'') = []"
    using collaborators_unavailable_give_defaults [of _ _ True False notJson "ExecOk ''{}''"] by simp
  have 2: "runNpmAudit notJson True True (ExecFailed (Some ''sh: 1: npm: not found'')) = []
      \<and> runNpmAudit notJson True True (ExecOk ''sh: 1: npm: not found'') = []"
    using collaborators_unavailable_give_defaults [of _ _ True True notJson _ "''sh: 1: npm: not found''"] n
    by blast
  note T = collaborators_unavailable_give_defaults [of "[''a.ts'']" lodashImports]
  have "analyzePackageDeps ManifestAbsent [''a.ts''] lodashImports = defaultResult"
    using T by blast
  moreover have "defaultResult = \<lparr>dependencies = [], devDependencies = [], used = [], unused = [],
                        outdated = [], suggestions = []\<rparr>"
    using T by blast
  ultimately have "analyzePackageDeps ManifestAbsent [''a.ts''] lodashImports =
      \<lparr>dependencies = [], devDependencies = [], used = [], unused = [],
                        outdated = [], suggestions = []\<rparr>"
    by (rule trans)
  then have 3: "used (analyzePackageDeps ManifestAbsent [''a.ts''] lodashImports) = []"
    by simp
  show ?thesis using 1 2 3 by simp
qed

text \<open>
  The trees Babel gives for \<^verbatim>\<open>new Function('return 1')\<close> and for
  \<^verbatim>\<open>Function('return 1')\<close>, each a program of one expression statement on line 1.
\<close>

definition newFunctionSource :: "codeunit list" where
  "newFunctionSource = units (''new Function('' @ [CHR 0x27] @ ''return 1'' @ [CHR 0x27] @ '')'')"

definition newFunctionTree :: Node where
  "newFunctionTree =
     OtherNode [OtherNode [OtherNode [NewExpression (Identifier ''Function'') [StringLiteral ''return 1''] (Some 1)]]]"

definition callFunctionTree :: Node where
  "callFunctionTree =
     OtherNode [OtherNode [OtherNode [CallExpression (Identifier ''Function'') [StringLiteral ''return 1''] (Some 1)]]]"

definition babel :: "codeunit list \<Rightarrow> Node option" where
  "babel content = (if content = newFunctionSource then Some newFunctionTree else None)"

lemma newFunction_no_secret: "secretScan ''a.js'' newFunctionSource = []"
  by code_simp

lemma a_js_ext: "path_extname ''/proj/a.js'' \<in> set jsExtensions"
  by code_simp

text \<open>
  Claim C10 at that input: the constructor call is a \<^verbatim>\<open>NewExpression\<close>, which no visitor
  handles, so the file yields no finding, although the check of the pattern accepts the
  node; the call without \<^verbatim>\<open>new\<close> yields the high-severity Code Injection finding.
\<close>

theorem new_Function_not_flagged:
  "scanFileForVulnerabilities babel ''/proj/a.js'' newFunctionSource ''a.js'' = []
   \<and> traverse ''a.js'' newFunctionTree = []
   \<and> checkFunction (NewExpression (Identifier ''Function'') [StringLiteral ''return 1''] (Some 1))
   \<and> traverse ''a.js'' callFunctionTree =
       [\<lparr>name = ''Function() Constructor'', severity = ''high'',
         description = ''new Function() dynamically creates functions from strings, similar to eval(). Avoid using user input.'',
         vsource = CodeScan, vfile = Some ''a.js'', line = Some 1,
         category = Some ''Code Injection''\<rparr>]"
proof -
  have t: "traverse ''a.js'' newFunctionTree = []"
    by (simp add: newFunctionTree_def visit_def)
  have s: "scanFileForVulnerabilities babel ''/proj/a.js'' newFunctionSource ''a.js'' = []"
    using a_js_ext by (simp add: scanFileForVulnerabilities_def babel_def t newFunction_no_secret)
  have c: "checkFunction (NewExpression (Identifier ''Function'') [StringLiteral ''return 1''] (Some 1))"
    by (simp add: checkFunction_def callee_def isIdentifierNamed_def)
  have f: "traverse ''a.js'' callFunctionTree =
       [\<lparr>name = ''Function() Constructor'', severity = ''high'',
         description = ''new Function() dynamically creates functions from strings, similar to eval(). Avoid using user input.'',
         vsource = CodeScan, vfile = Some ''a.js'', line = Some 1,
         category = Some ''Code Injection''\<rparr>]"
    by (simp add: callFunctionTree_def visit_def DANGEROUS_PATTERNS_def codeFinding_def
        checkEval_def checkFunction_def checkExec_def checkDocumentWrite_def callee_def
        isIdentifierNamed_def)
  show ?thesis using t s c f by simp
qed

end
